theory Spec2Isabelle
  imports Main "HOL-Library.Word"
begin

section \<open>The WordPress endpoints of the transcription proxy\<close>

text \<open>
  The repository is an Express server (\<^verbatim>\<open>src/server.js\<close> and a later revision of the same
  file, \<^verbatim>\<open>src/unnamed/part_000\<close>) that forwards requests to third-party HTTP APIs.  This
  theory embeds the three WordPress handlers of the later revision, the one with manual
  redirect handling: \<^verbatim>\<open>/api/wordpress/categories\<close>, \<^verbatim>\<open>/api/wordpress/media\<close> and
  \<^verbatim>\<open>/api/wordpress/posts\<close>, together with \<^verbatim>\<open>getWpAuthHeader\<close>.  The categories handler,
  \<^verbatim>\<open>getWpAuthHeader\<close> and the derivation of the upload file name are the same in both
  revisions.

  A handler is a function from the network and the request body to the reply it sends
  and the list of upstream requests it issued, in order.  The network is a function from
  the requests issued so far and the next request to the outcome of \<^verbatim>\<open>fetch\<close>: every run of a
  handler is its value at some network.
\<close>

subsection \<open>JavaScript strings and values\<close>

text \<open>
  A JavaScript string is a sequence of UTF-16 code units, a \<^verbatim>\<open>Buffer\<close> a sequence of bytes.
  \<open>js\<close> turns an ASCII literal of the source into a JavaScript string.
\<close>

type_synonym code_unit = "16 word"
type_synonym jsstring = "code_unit list"
type_synonym byte = "8 word"

definition unit_of_nat :: "nat \<Rightarrow> code_unit" where
  "unit_of_nat n = of_nat n"

definition byte_of_nat :: "nat \<Rightarrow> byte" where
  "byte_of_nat n = of_nat n"

definition js :: "string \<Rightarrow> jsstring" where
  "js s = map (\<lambda>c. unit_of_nat (of_char c)) s"

text \<open>
  The values that \<^verbatim>\<open>JSON.parse\<close> yields, and \<^verbatim>\<open>undefined\<close> for a property that is missing.
  Numbers are modelled as integers (every number the handlers read is an id of the
  WordPress REST API); an object is the list of its properties.
\<close>

datatype jsval =
    JUndefined
  | JNull
  | JBool bool
  | JNum int
  | JStr jsstring
  | JArr "jsval list"
  | JObj "(jsstring \<times> jsval) list"

datatype js_error = TypeError | SyntaxError | URIError | FetchError jsstring

text \<open>What \<^verbatim>\<open>if (v)\<close>, \<^verbatim>\<open>!v\<close> and \<^verbatim>\<open>v || w\<close> test.\<close>

fun truthy :: "jsval \<Rightarrow> bool" where
  "truthy JUndefined = False"
| "truthy JNull = False"
| "truthy (JBool b) = b"
| "truthy (JNum n) = (n \<noteq> 0)"
| "truthy (JStr s) = (s \<noteq> [])"
| "truthy (JArr vs) = True"
| "truthy (JObj kvs) = True"

fun dec_nat :: "nat \<Rightarrow> string" where
  "dec_nat n = (if n < 10 then [char_of (48 + n)] else dec_nat (n div 10) @ [char_of (48 + n mod 10)])"

declare dec_nat.simps [simp del]

definition dec_int :: "int \<Rightarrow> string" where
  "dec_int i = (if i < 0 then CHR ''-'' # dec_nat (nat (- i)) else dec_nat (nat i))"

fun join_comma :: "jsstring list \<Rightarrow> jsstring" where
  "join_comma [] = []"
| "join_comma [s] = s"
| "join_comma (s # t # ss) = s @ js '','' @ join_comma (t # ss)"

text \<open>The string a template literal \<^verbatim>\<open>`${v}`\<close> interpolates.\<close>

fun to_string :: "jsval \<Rightarrow> jsstring" where
  "to_string JUndefined = js ''undefined''"
| "to_string JNull = js ''null''"
| "to_string (JBool b) = (if b then js ''true'' else js ''false'')"
| "to_string (JNum n) = js (dec_int n)"
| "to_string (JStr s) = s"
| "to_string (JArr vs) =
     join_comma (map (\<lambda>v. if v = JUndefined \<or> v = JNull then [] else to_string v) vs)"
| "to_string (JObj kvs) = js ''[object Object]''"

text \<open>
  Reading a property \<^verbatim>\<open>v.k\<close>: a \<^verbatim>\<open>TypeError\<close> on \<^verbatim>\<open>null\<close> and \<^verbatim>\<open>undefined\<close>, the property of
  an object, \<^verbatim>\<open>undefined\<close> otherwise.  Of the names the handlers read (\<^verbatim>\<open>id\<close>, \<^verbatim>\<open>name\<close>,
  \<^verbatim>\<open>message\<close>, \<^verbatim>\<open>source_url\<close>, \<^verbatim>\<open>link\<close>) none is a property of an array, a number or a
  boolean; of a string, \<^verbatim>\<open>link\<close> is a method, which \<^verbatim>\<open>res.json\<close> leaves out of the reply as it
  leaves out \<^verbatim>\<open>undefined\<close>.
\<close>

fun get_prop :: "jsval \<Rightarrow> jsstring \<Rightarrow> js_error + jsval" where
  "get_prop JUndefined k = Inl TypeError"
| "get_prop JNull k = Inl TypeError"
| "get_prop (JObj kvs) k = Inr (case map_of kvs k of None \<Rightarrow> JUndefined | Some v \<Rightarrow> v)"
| "get_prop v k = Inr JUndefined"

text \<open>
  Calling a method of \<^verbatim>\<open>String.prototype\<close> (\<^verbatim>\<open>replace\<close>, \<^verbatim>\<open>startsWith\<close>, \<^verbatim>\<open>toLowerCase\<close>) on
  a value: the receiver when it is a string, a \<^verbatim>\<open>TypeError\<close> otherwise.
\<close>

fun str_receiver :: "jsval \<Rightarrow> js_error + jsstring" where
  "str_receiver (JStr s) = Inr s"
| "str_receiver v = Inl TypeError"

text \<open>\<^verbatim>\<open>title?.substring(0, 50)\<close>: the call is skipped on \<^verbatim>\<open>null\<close> and \<^verbatim>\<open>undefined\<close> only.\<close>

fun optional_substring :: "jsval \<Rightarrow> js_error + jsval" where
  "optional_substring JUndefined = Inr JUndefined"
| "optional_substring JNull = Inr JUndefined"
| "optional_substring (JStr s) = Inr (JStr (take 50 s))"
| "optional_substring v = Inl TypeError"

text \<open>
  The object that \<^verbatim>\<open>JSON.stringify\<close> and \<^verbatim>\<open>res.json\<close> write for an object literal: a
  property whose value is \<^verbatim>\<open>undefined\<close> is left out.
\<close>

definition json_object :: "(jsstring \<times> jsval) list \<Rightarrow> jsval" where
  "json_object kvs = JObj (filter (\<lambda>kv. snd kv \<noteq> JUndefined) kvs)"

definition error_body :: "jsval \<Rightarrow> jsval" where
  "error_body m = json_object [(js ''error'', m)]"

text \<open>\<^verbatim>\<open>s.replace(/\/$/, '')\<close>: one slash at the very end is removed.\<close>

definition strip_trailing_slash :: "jsstring \<Rightarrow> jsstring" where
  "strip_trailing_slash s = (if s \<noteq> [] \<and> last s = 0x2F then butlast s else s)"

definition startsWith :: "jsstring \<Rightarrow> jsstring \<Rightarrow> bool" where
  "startsWith s p \<longleftrightarrow> take (length p) s = p"

subsection \<open>UTF-8, base64 and percent-encoding\<close>

text \<open>
  \<^verbatim>\<open>Buffer.from(s)\<close> encodes the code points of \<open>s\<close> in UTF-8, a surrogate without its
  partner as U+FFFD.
\<close>

definition is_high :: "code_unit \<Rightarrow> bool" where
  "is_high c \<longleftrightarrow> 0xD800 \<le> c \<and> c \<le> 0xDBFF"

definition is_low :: "code_unit \<Rightarrow> bool" where
  "is_low c \<longleftrightarrow> 0xDC00 \<le> c \<and> c \<le> 0xDFFF"

definition bmp_point :: "code_unit \<Rightarrow> nat option" where
  "bmp_point c = (if is_high c \<or> is_low c then None else Some (unat c))"

fun code_points :: "jsstring \<Rightarrow> nat option list" where
  "code_points [] = []"
| "code_points [c] = [bmp_point c]"
| "code_points (c # d # cs) =
     (if is_high c \<and> is_low d
      then Some (0x10000 + (unat c - 0xD800) * 0x400 + (unat d - 0xDC00)) # code_points cs
      else bmp_point c # code_points (d # cs))"

definition utf8_bytes :: "nat \<Rightarrow> byte list" where
  "utf8_bytes n =
     (if n < 0x80 then [byte_of_nat n]
      else if n < 0x800 then [byte_of_nat (0xC0 + n div 64), byte_of_nat (0x80 + n mod 64)]
      else if n < 0x10000 then
        [byte_of_nat (0xE0 + n div 4096), byte_of_nat (0x80 + n div 64 mod 64),
         byte_of_nat (0x80 + n mod 64)]
      else
        [byte_of_nat (0xF0 + n div 262144), byte_of_nat (0x80 + n div 4096 mod 64),
         byte_of_nat (0x80 + n div 64 mod 64), byte_of_nat (0x80 + n mod 64)])"

definition buffer_from :: "jsstring \<Rightarrow> byte list" where
  "buffer_from s =
     concat (map (\<lambda>p. utf8_bytes (case p of None \<Rightarrow> 0xFFFD | Some n \<Rightarrow> n)) (code_points s))"

text \<open>\<^verbatim>\<open>buf.toString('base64')\<close>: the alphabet of RFC 4648, padded with \<^verbatim>\<open>=\<close>.\<close>

definition b64_char :: "nat \<Rightarrow> code_unit" where
  "b64_char n =
     (if n < 26 then unit_of_nat (65 + n)
      else if n < 52 then unit_of_nat (71 + n)
      else if n < 62 then unit_of_nat (n - 4)
      else if n = 62 then 43 else 47)"

definition b64_pad :: code_unit where
  "b64_pad = 61"

definition sextet1 :: "byte \<Rightarrow> nat" where
  "sextet1 a = unat a div 4"

definition sextet2 :: "byte \<Rightarrow> byte \<Rightarrow> nat" where
  "sextet2 a b = unat a mod 4 * 16 + unat b div 16"

definition sextet3 :: "byte \<Rightarrow> byte \<Rightarrow> nat" where
  "sextet3 b c = unat b mod 16 * 4 + unat c div 64"

definition sextet4 :: "byte \<Rightarrow> nat" where
  "sextet4 c = unat c mod 64"

fun base64_encode :: "byte list \<Rightarrow> jsstring" where
  "base64_encode [] = []"
| "base64_encode [a] =
     [b64_char (sextet1 a), b64_char (sextet2 a 0), b64_pad, b64_pad]"
| "base64_encode [a, b] =
     [b64_char (sextet1 a), b64_char (sextet2 a b), b64_char (sextet3 b 0), b64_pad]"
| "base64_encode (a # b # c # bs) =
     [b64_char (sextet1 a), b64_char (sextet2 a b), b64_char (sextet3 b c), b64_char (sextet4 c)]
     @ base64_encode bs"






text \<open>
  \<^verbatim>\<open>encodeURIComponent(v)\<close>: the unreserved characters \<^verbatim>\<open>A-Z a-z 0-9 - _ . ! ~ * ' ( )\<close> stay,
  every other code point becomes the percent-encoded bytes of its UTF-8 form, and a
  surrogate without its partner raises a \<^verbatim>\<open>URIError\<close>.
\<close>

definition is_alnum :: "code_unit \<Rightarrow> bool" where
  "is_alnum c \<longleftrightarrow> (0x61 \<le> c \<and> c \<le> 0x7A) \<or> (0x41 \<le> c \<and> c \<le> 0x5A) \<or> (0x30 \<le> c \<and> c \<le> 0x39)"

definition is_unreserved :: "nat \<Rightarrow> bool" where
  "is_unreserved n \<longleftrightarrow>
     n < 0x80 \<and> (is_alnum (unit_of_nat n) \<or> n \<in> set [0x2D, 0x5F, 0x2E, 0x21, 0x7E, 0x2A, 0x27, 0x28, 0x29])"

definition hex_digit :: "nat \<Rightarrow> code_unit" where
  "hex_digit n = (if n < 10 then unit_of_nat (48 + n) else unit_of_nat (55 + n))"

definition percent :: "byte \<Rightarrow> jsstring" where
  "percent b = [0x25, hex_digit (unat b div 16), hex_digit (unat b mod 16)]"

definition encodeURIComponent :: "jsval \<Rightarrow> js_error + jsstring" where
  "encodeURIComponent v =
     (let ps = code_points (to_string v) in
      if None \<in> set ps then Inl URIError
      else Inr (concat (map (\<lambda>p. case p of
                                   None \<Rightarrow> []
                                 | Some n \<Rightarrow> if is_unreserved n then [unit_of_nat n]
                                            else concat (map percent (utf8_bytes n))) ps)))"

subsection \<open>The credential encoder\<close>

text \<open>
  \<^verbatim>\<open>const credentials = Buffer.from(`${username}:${appPassword}`).toString('base64');\<close>
  \<^verbatim>\<open>return `Basic ${credentials}`;\<close>
\<close>

definition getWpAuthHeader :: "jsval \<Rightarrow> jsval \<Rightarrow> jsstring" where
  "getWpAuthHeader username appPassword =
     (let credentials =
        base64_encode (buffer_from (to_string username @ js '':'' @ to_string appPassword))
      in js ''Basic '' @ credentials)"

subsection \<open>Requests, responses and the network\<close>

text \<open>
  The options a handler passes to \<^verbatim>\<open>fetch\<close>.  An option the call leaves out is \<open>None\<close>:
  node-fetch then sends a \<^verbatim>\<open>GET\<close> and follows redirects by itself (\<^verbatim>\<open>redirect: 'follow'\<close>).
  A \<^verbatim>\<open>FormData\<close> object is a stream that can be sent once; \<open>form_id\<close> numbers the objects
  of a handler in the order of their creation, and \<open>FormHeaders n\<close> are the headers
  \<^verbatim>\<open>formData.getHeaders()\<close> of object \<open>n\<close>.  \<open>JsonBody v\<close> is the text \<^verbatim>\<open>JSON.stringify(v)\<close>.
\<close>

datatype redirect_mode = Follow | Manual

datatype header = Header jsstring jsstring | FormHeaders nat

record form_data =
  form_id :: nat
  field :: jsstring
  file_content :: "byte list"
  filename :: jsstring
  contentType :: jsstring

datatype payload = NoBody | JsonBody jsval | FormBody form_data

record request =
  url :: jsstring
  method_opt :: "jsstring option"
  headers :: "header list"
  body :: payload
  redirect_opt :: "redirect_mode option"

text \<open>
  What a handler reads of a response: \<^verbatim>\<open>status\<close>, \<^verbatim>\<open>headers.get('location')\<close>, the bytes
  of \<^verbatim>\<open>buffer()\<close>, and the value of \<^verbatim>\<open>json()\<close> or of \<^verbatim>\<open>JSON.parse\<close> on \<^verbatim>\<open>text()\<close>, \<open>None\<close> when
  the body is not JSON and the parser throws.  A \<^verbatim>\<open>fetch\<close> resolves to a response or rejects
  with an error (DNS, connection refused, an invalid URL).
\<close>

record response =
  status :: nat
  location :: "jsstring option"
  buffer :: "byte list"
  json :: "jsval option"

datatype fetch_outcome = Resolved response | Rejected jsstring

type_synonym network = "request list \<Rightarrow> request \<Rightarrow> fetch_outcome"

definition ok :: "response \<Rightarrow> bool" where
  "ok r \<longleftrightarrow> 200 \<le> status r \<and> status r < 300"

text \<open>
  What a handler sends back: \<open>Reply s v\<close> is \<^verbatim>\<open>res.status(s).json(v)\<close> (\<^verbatim>\<open>res.json(v)\<close> has status
  200), and \<open>InternalError e\<close> is the reply of the handler's outer \<^verbatim>\<open>catch\<close>,
  \<^verbatim>\<open>res.status(500).json({ error: error.message })\<close>, for the error \<open>e\<close> it caught.
\<close>

datatype reply = Reply nat jsval | InternalError js_error

text \<open>The fields a handler destructures from \<^verbatim>\<open>req.body\<close>; a missing one is \<^verbatim>\<open>undefined\<close>.\<close>

record req_body =
  siteUrl :: jsval
  username :: jsval
  appPassword :: jsval
  categoryName :: jsval
  imageUrl :: jsval
  title :: jsval
  content :: jsval
  featuredImageId :: jsval
  categoryId :: jsval

subsection \<open>Search or create a category\<close>

definition categories_search_request :: "jsstring \<Rightarrow> jsstring \<Rightarrow> jsstring \<Rightarrow> request" where
  "categories_search_request baseUrl authHeader query =
     \<lparr>url = baseUrl @ js ''/wp-json/wp/v2/categories?search='' @ query,
      method_opt = None,
      headers = [Header (js ''Authorization'') authHeader],
      body = NoBody,
      redirect_opt = None\<rparr>"

definition categories_create_request :: "jsstring \<Rightarrow> jsstring \<Rightarrow> jsval \<Rightarrow> request" where
  "categories_create_request baseUrl authHeader name =
     \<lparr>url = baseUrl @ js ''/wp-json/wp/v2/categories'',
      method_opt = Some (js ''POST''),
      headers = [Header (js ''Authorization'') authHeader,
                 Header (js ''Content-Type'') (js ''application/json'')],
      body = JsonBody (json_object [(js ''name'', name)]),
      redirect_opt = None\<rparr>"

text \<open>
  \<^verbatim>\<open>categories.find(cat => cat.name.toLowerCase() === categoryName.toLowerCase())\<close>: the first
  entry the callback accepts; the callback throws on an entry without a name that is a
  string, and on a \<open>categoryName\<close> that is not a string.  \<^verbatim>\<open>toLowerCase\<close> is the runtime's
  (the Unicode lower-case mapping); the resolver is a function of it.
\<close>

fun find_category :: "(jsstring \<Rightarrow> jsstring) \<Rightarrow> jsval \<Rightarrow> jsval list \<Rightarrow> js_error + jsval option" where
  "find_category toLowerCase name [] = Inr None"
| "find_category toLowerCase name (cat # cats) =
     (case get_prop cat (js ''name'') of
        Inl e \<Rightarrow> Inl e
      | Inr cat_name \<Rightarrow>
          (case str_receiver cat_name of
             Inl e \<Rightarrow> Inl e
           | Inr n \<Rightarrow>
               (case str_receiver name of
                  Inl e \<Rightarrow> Inl e
                | Inr q \<Rightarrow>
                    if toLowerCase n = toLowerCase q then Inr (Some cat)
                    else find_category toLowerCase name cats)))"

text \<open>
  The second half of the handler: \<^verbatim>\<open>// Category doesn't exist, create it\<close>.  Both branches
  start by parsing the body with \<^verbatim>\<open>createResponse.json()\<close>, which throws when it is not JSON.
\<close>

definition categories_create ::
  "network \<Rightarrow> request list \<Rightarrow> jsstring \<Rightarrow> jsstring \<Rightarrow> jsval \<Rightarrow> reply \<times> request list" where
  "categories_create net sent baseUrl authHeader name =
     (let rq = categories_create_request baseUrl authHeader name in
      (case net sent rq of
        Rejected m \<Rightarrow> (InternalError (FetchError m), sent @ [rq])
      | Resolved createResponse \<Rightarrow>
          (case json createResponse of
             None \<Rightarrow> (InternalError SyntaxError, sent @ [rq])
           | Some data \<Rightarrow>
               if \<not> ok createResponse then
                 (case get_prop data (js ''message'') of
                    Inl e \<Rightarrow> (InternalError e, sent @ [rq])
                  | Inr m \<Rightarrow>
                      (Reply (status createResponse)
                         (error_body (if truthy m then m else JStr (js ''Failed to create category''))),
                       sent @ [rq]))
               else
                 (case get_prop data (js ''id'') of
                    Inl e \<Rightarrow> (InternalError e, sent @ [rq])
                  | Inr new_id \<Rightarrow>
                      (case get_prop data (js ''name'') of
                         Inl e \<Rightarrow> (InternalError e, sent @ [rq])
                       | Inr new_name \<Rightarrow>
                           (Reply 200 (json_object [(js ''id'', new_id), (js ''name'', new_name)]),
                            sent @ [rq]))))))"

definition wp_categories ::
  "(jsstring \<Rightarrow> jsstring) \<Rightarrow> network \<Rightarrow> req_body \<Rightarrow> reply \<times> request list" where
  "wp_categories toLowerCase net b =
     (if \<not> truthy (siteUrl b) \<or> \<not> truthy (username b) \<or> \<not> truthy (appPassword b)
      then (Reply 400 (error_body (JStr (js ''Missing WordPress credentials''))), [])
      else
        (case str_receiver (siteUrl b) of
           Inl e \<Rightarrow> (InternalError e, [])
         | Inr site \<Rightarrow>
             (let baseUrl = strip_trailing_slash site;
                  authHeader = getWpAuthHeader (username b) (appPassword b)
              in
                (case encodeURIComponent (categoryName b) of
                   Inl e \<Rightarrow> (InternalError e, [])
                 | Inr query \<Rightarrow>
                     (let rq = categories_search_request baseUrl authHeader query in
                        (case net [] rq of
                           Rejected m \<Rightarrow> (InternalError (FetchError m), [rq])
                         | Resolved searchResponse \<Rightarrow>
                             if ok searchResponse then
                               (case json searchResponse of
                                  None \<Rightarrow> (InternalError SyntaxError, [rq])
                                | Some (JArr categories) \<Rightarrow>
                                    (case find_category toLowerCase (categoryName b) categories of
                                       Inl e \<Rightarrow> (InternalError e, [rq])
                                     | Inr None \<Rightarrow>
                                         categories_create net [rq] baseUrl authHeader (categoryName b)
                                     | Inr (Some existingCategory) \<Rightarrow>
                                         if truthy existingCategory then
                                           (case get_prop existingCategory (js ''id'') of
                                              Inl e \<Rightarrow> (InternalError e, [rq])
                                            | Inr cat_id \<Rightarrow>
                                                (case get_prop existingCategory (js ''name'') of
                                                   Inl e \<Rightarrow> (InternalError e, [rq])
                                                 | Inr cat_name \<Rightarrow>
                                                     (Reply 200
                                                        (json_object
                                                           [(js ''id'', cat_id), (js ''name'', cat_name)]),
                                                      [rq])))
                                         else
                                           categories_create net [rq] baseUrl authHeader (categoryName b))
                                | Some other \<Rightarrow> (InternalError TypeError, [rq]))
                             else categories_create net [rq] baseUrl authHeader (categoryName b)))))))"

subsection \<open>Upload media\<close>

text \<open>
  \<^verbatim>\<open>(title || 'featured-image').replace(/[^a-zA-Z0-9]/g, '-').substring(0, 50)\<close>: every code
  unit outside \<^verbatim>\<open>[a-zA-Z0-9]\<close> is replaced by a hyphen, and the first 50 code units are kept.
\<close>

definition safeTitle :: "jsstring \<Rightarrow> jsstring" where
  "safeTitle t = take 50 (map (\<lambda>c. if is_alnum c then c else 0x2D) t)"

definition createFormData :: "nat \<Rightarrow> byte list \<Rightarrow> jsstring \<Rightarrow> form_data" where
  "createFormData n imageBuffer name =
     \<lparr>form_id = n, field = js ''file'', file_content = imageBuffer, filename = name,
      contentType = js ''image/jpeg''\<rparr>"

definition image_request :: "jsstring \<Rightarrow> request" where
  "image_request image_url =
     \<lparr>url = image_url, method_opt = None, headers = [], body = NoBody,
      redirect_opt = Some Follow\<rparr>"

definition media_upload_request :: "jsstring \<Rightarrow> jsstring \<Rightarrow> form_data \<Rightarrow> request" where
  "media_upload_request baseUrl authHeader formData =
     \<lparr>url = baseUrl @ js ''/wp-json/wp/v2/media'',
      method_opt = Some (js ''POST''),
      headers = [Header (js ''Authorization'') authHeader, FormHeaders (form_id formData)],
      body = FormBody formData,
      redirect_opt = Some Manual\<rparr>"

definition media_redirect_request :: "jsstring \<Rightarrow> jsstring \<Rightarrow> form_data \<Rightarrow> request" where
  "media_redirect_request redirectUrl authHeader formData =
     \<lparr>url = redirectUrl,
      method_opt = Some (js ''POST''),
      headers = [Header (js ''Authorization'') authHeader, FormHeaders (form_id formData)],
      body = FormBody formData,
      redirect_opt = None\<rparr>"

definition media_patch_request :: "jsstring \<Rightarrow> jsstring \<Rightarrow> jsval \<Rightarrow> jsval \<Rightarrow> request" where
  "media_patch_request baseUrl authHeader media_id t =
     \<lparr>url = baseUrl @ js ''/wp-json/wp/v2/media/'' @ to_string media_id,
      method_opt = Some (js ''POST''),
      headers = [Header (js ''Authorization'') authHeader,
                 Header (js ''Content-Type'') (js ''application/json'')],
      body = JsonBody (json_object [(js ''alt_text'', t), (js ''title'', t)]),
      redirect_opt = None\<rparr>"

definition is_redirect_status :: "nat \<Rightarrow> bool" where
  "is_redirect_status s \<longleftrightarrow> s = 301 \<or> s = 302 \<or> s = 307 \<or> s = 308"

text \<open>
  The handler from \<^verbatim>\<open>if (!uploadResponse.ok)\<close> to its end.  The inner \<^verbatim>\<open>try\<close> of the error
  branch catches the \<^verbatim>\<open>SyntaxError\<close> of \<^verbatim>\<open>JSON.parse\<close> and the \<^verbatim>\<open>TypeError\<close> of reading
  \<^verbatim>\<open>message\<close> off \<^verbatim>\<open>null\<close>.  The \<^verbatim>\<open>try\<close> around the alt-text request catches its rejection,
  and the response it resolves to is not looked at.  Reading \<^verbatim>\<open>mediaItem.source_url\<close> for the
  reply cannot fail once \<^verbatim>\<open>mediaItem.id\<close> was read for the log line, so the model reads both
  before the alt-text request.
\<close>

definition media_finish ::
  "network \<Rightarrow> request list \<Rightarrow> jsstring \<Rightarrow> jsstring \<Rightarrow> jsval \<Rightarrow> response \<Rightarrow> reply \<times> request list" where
  "media_finish net sent baseUrl authHeader t uploadResponse =
     (if \<not> ok uploadResponse then
        (case json uploadResponse of
           None \<Rightarrow>
             (Reply (status uploadResponse)
                (error_body (JStr (js ''Failed to upload media: '' @ js (dec_nat (status uploadResponse))))),
              sent)
         | Some errorData \<Rightarrow>
             (case get_prop errorData (js ''message'') of
                Inl e \<Rightarrow>
                  (Reply (status uploadResponse)
                     (error_body
                        (JStr (js ''Failed to upload media: '' @ js (dec_nat (status uploadResponse))))),
                   sent)
              | Inr m \<Rightarrow>
                  (Reply (status uploadResponse)
                     (error_body (if truthy m then m else JStr (js ''Failed to upload media''))),
                   sent)))
      else
        (case json uploadResponse of
           None \<Rightarrow> (InternalError SyntaxError, sent)
         | Some mediaItem \<Rightarrow>
             (case get_prop mediaItem (js ''id'') of
                Inl e \<Rightarrow> (InternalError e, sent)
              | Inr media_id \<Rightarrow>
                  (case get_prop mediaItem (js ''source_url'') of
                     Inl e \<Rightarrow> (InternalError e, sent)
                   | Inr source_url \<Rightarrow>
                       if truthy t \<and> truthy media_id then
                         (let rq = media_patch_request baseUrl authHeader media_id t in
                            (case net sent rq of
                               Rejected altError \<Rightarrow>
                                 (Reply 200 (json_object [(js ''id'', media_id), (js ''url'', source_url)]),
                                  sent @ [rq])
                             | Resolved patched \<Rightarrow>
                                 (Reply 200 (json_object [(js ''id'', media_id), (js ''url'', source_url)]),
                                  sent @ [rq])))
                       else
                         (Reply 200 (json_object [(js ''id'', media_id), (js ''url'', source_url)]),
                          sent)))))"

text \<open>
  The handler from \<^verbatim>\<open>let formData = createFormData()\<close>: the upload, and the redirect that is
  followed by hand.
\<close>

definition media_upload ::
  "network \<Rightarrow> request list \<Rightarrow> jsstring \<Rightarrow> jsstring \<Rightarrow> byte list \<Rightarrow> jsstring \<Rightarrow> jsval \<Rightarrow>
   reply \<times> request list" where
  "media_upload net sent baseUrl authHeader imageBuffer name t =
     (let rq = media_upload_request baseUrl authHeader (createFormData 0 imageBuffer name) in
      (case net sent rq of
        Rejected m \<Rightarrow> (InternalError (FetchError m), sent @ [rq])
      | Resolved uploadResponse \<Rightarrow>
          if is_redirect_status (status uploadResponse) then
            (case location uploadResponse of
               None \<Rightarrow> media_finish net (sent @ [rq]) baseUrl authHeader t uploadResponse
             | Some redirectUrl \<Rightarrow>
                 if redirectUrl \<noteq> [] then
                   (let rq' = media_redirect_request redirectUrl authHeader
                                (createFormData 1 imageBuffer name) in
                    (case net (sent @ [rq]) rq' of
                       Rejected m \<Rightarrow> (InternalError (FetchError m), sent @ [rq, rq'])
                     | Resolved redirected \<Rightarrow>
                         media_finish net (sent @ [rq, rq']) baseUrl authHeader t redirected))
                 else media_finish net (sent @ [rq]) baseUrl authHeader t uploadResponse)
          else media_finish net (sent @ [rq]) baseUrl authHeader t uploadResponse))"

definition wp_media :: "network \<Rightarrow> req_body \<Rightarrow> reply \<times> request list" where
  "wp_media net b =
     (if \<not> truthy (siteUrl b) \<or> \<not> truthy (username b) \<or> \<not> truthy (appPassword b)
         \<or> \<not> truthy (imageUrl b)
      then
        (Reply 400
           (error_body
              (JStr (js ''Missing required fields. imageUrl: ''
                     @ to_string (if truthy (imageUrl b) then imageUrl b else JStr (js ''MISSING''))))),
         [])
      else
        (case str_receiver (imageUrl b) of
           Inl e \<Rightarrow> (InternalError e, [])
         | Inr image_url \<Rightarrow>
             if \<not> startsWith image_url (js ''http://'') \<and> \<not> startsWith image_url (js ''https://'')
             then (Reply 400 (error_body (JStr (js ''Invalid image URL format: '' @ image_url))), [])
             else
               (case str_receiver (siteUrl b) of
                  Inl e \<Rightarrow> (InternalError e, [])
                | Inr site \<Rightarrow>
                    (let baseUrl = strip_trailing_slash site;
                         authHeader = getWpAuthHeader (username b) (appPassword b);
                         rq = image_request image_url
                     in
                       (case net [] rq of
                          Rejected m \<Rightarrow> (InternalError (FetchError m), [rq])
                        | Resolved imageResponse \<Rightarrow>
                            if \<not> ok imageResponse then
                              (Reply 400
                                 (error_body
                                    (JStr (js ''Failed to fetch image from URL: ''
                                           @ js (dec_nat (status imageResponse))))),
                               [rq])
                            else
                              (case str_receiver
                                      (if truthy (title b) then title b
                                       else JStr (js ''featured-image'')) of
                                 Inl e \<Rightarrow> (InternalError e, [rq])
                               | Inr t \<Rightarrow>
                                   media_upload net [rq] baseUrl authHeader (buffer imageResponse)
                                     (safeTitle t @ js ''-featured.jpg'') (title b)))))))"

subsection \<open>Create a post\<close>

definition postData :: "req_body \<Rightarrow> jsval" where
  "postData b =
     json_object
       ([(js ''title'', title b), (js ''content'', content b), (js ''status'', JStr (js ''draft''))]
        @ (if truthy (featuredImageId b) then [(js ''featured_media'', featuredImageId b)] else [])
        @ (if truthy (categoryId b) then [(js ''categories'', JArr [categoryId b])] else []))"

definition posts_request :: "jsstring \<Rightarrow> jsstring \<Rightarrow> jsval \<Rightarrow> request" where
  "posts_request baseUrl authHeader data =
     \<lparr>url = baseUrl @ js ''/wp-json/wp/v2/posts'',
      method_opt = Some (js ''POST''),
      headers = [Header (js ''Authorization'') authHeader,
                 Header (js ''Content-Type'') (js ''application/json'')],
      body = JsonBody data,
      redirect_opt = Some Manual\<rparr>"

definition posts_redirect_request :: "jsstring \<Rightarrow> jsstring \<Rightarrow> jsval \<Rightarrow> request" where
  "posts_redirect_request redirectUrl authHeader data =
     \<lparr>url = redirectUrl,
      method_opt = Some (js ''POST''),
      headers = [Header (js ''Authorization'') authHeader,
                 Header (js ''Content-Type'') (js ''application/json'')],
      body = JsonBody data,
      redirect_opt = None\<rparr>"

text \<open>The handler from \<^verbatim>\<open>if (!response.ok)\<close> to its end.\<close>

definition posts_finish :: "request list \<Rightarrow> jsstring \<Rightarrow> response \<Rightarrow> reply \<times> request list" where
  "posts_finish sent baseUrl r =
     (if \<not> ok r then
        (case json r of
           None \<Rightarrow>
             (Reply (status r) (error_body (JStr (js ''Failed to create post: '' @ js (dec_nat (status r))))),
              sent)
         | Some errorData \<Rightarrow>
             (case get_prop errorData (js ''message'') of
                Inl e \<Rightarrow>
                  (Reply (status r)
                     (error_body (JStr (js ''Failed to create post: '' @ js (dec_nat (status r))))),
                   sent)
              | Inr m \<Rightarrow>
                  (Reply (status r)
                     (error_body (if truthy m then m else JStr (js ''Failed to create post''))),
                   sent)))
      else
        (case json r of
           None \<Rightarrow> (InternalError SyntaxError, sent)
         | Some post \<Rightarrow>
             (case get_prop post (js ''id'') of
                Inl e \<Rightarrow> (InternalError e, sent)
              | Inr post_id \<Rightarrow>
                  (case get_prop post (js ''link'') of
                     Inl e \<Rightarrow> (InternalError e, sent)
                   | Inr link \<Rightarrow>
                       (Reply 200
                          (json_object
                             [(js ''id'', post_id), (js ''link'', link),
                              (js ''adminLink'',
                               JStr (baseUrl @ js ''/wp-admin/post.php?post='' @ to_string post_id
                                     @ js ''&action=edit''))]),
                        sent)))))"

definition wp_posts :: "network \<Rightarrow> req_body \<Rightarrow> reply \<times> request list" where
  "wp_posts net b =
     (case optional_substring (title b) of
        Inl e \<Rightarrow> (InternalError e, [])
      | Inr logged \<Rightarrow>
          if \<not> truthy (siteUrl b) \<or> \<not> truthy (username b) \<or> \<not> truthy (appPassword b)
             \<or> \<not> truthy (title b) \<or> \<not> truthy (content b)
          then (Reply 400 (error_body (JStr (js ''Missing required fields''))), [])
          else
            (case str_receiver (siteUrl b) of
               Inl e \<Rightarrow> (InternalError e, [])
             | Inr site \<Rightarrow>
                 (let baseUrl = strip_trailing_slash site;
                      authHeader = getWpAuthHeader (username b) (appPassword b);
                      rq = posts_request baseUrl authHeader (postData b)
                  in
                    (case net [] rq of
                       Rejected m \<Rightarrow> (InternalError (FetchError m), [rq])
                     | Resolved r \<Rightarrow>
                         if is_redirect_status (status r) then
                           (case location r of
                              None \<Rightarrow> posts_finish [rq] baseUrl r
                            | Some redirectUrl \<Rightarrow>
                                if redirectUrl \<noteq> [] then
                                  (let rq' = posts_redirect_request redirectUrl authHeader (postData b)
                                   in
                                     (case net [rq] rq' of
                                        Rejected m \<Rightarrow> (InternalError (FetchError m), [rq, rq'])
                                      | Resolved redirected \<Rightarrow>
                                          posts_finish [rq, rq'] baseUrl redirected))
                                else posts_finish [rq] baseUrl r)
                         else posts_finish [rq] baseUrl r))))"

subsection \<open>What the statements observe\<close>

text \<open>The values of the \<^verbatim>\<open>Authorization\<close> headers of a request.\<close>

definition authorization :: "request \<Rightarrow> jsstring list" where
  "authorization rq =
     concat (map (\<lambda>h. case h of
                         Header n v \<Rightarrow> if n = js ''Authorization'' then [v] else []
                       | FormHeaders k \<Rightarrow> []) (headers rq))"

text \<open>
  The second body is the first one built again: the same JSON text, or a new
  \<^verbatim>\<open>FormData\<close> object with the same file, file name and content type.
\<close>

fun rebuilt :: "payload \<Rightarrow> payload \<Rightarrow> bool" where
  "rebuilt (FormBody f) (FormBody g) \<longleftrightarrow> form_id g \<noteq> form_id f \<and> g = f\<lparr>form_id := form_id g\<rparr>"
| "rebuilt (JsonBody v) (JsonBody w) \<longleftrightarrow> v = w"
| "rebuilt p q \<longleftrightarrow> False"

text \<open>The name of an entry of the category list, when the entry has one that is a string.\<close>

definition category_name :: "jsval \<Rightarrow> jsstring option" where
  "category_name c = (case get_prop c (js ''name'') of Inr (JStr s) \<Rightarrow> Some s | _ \<Rightarrow> None)"

text \<open>
  The message a handler relays for an upstream response that is not 2xx, \<open>what\<close> being
  \<^verbatim>\<open>Failed to upload media\<close> or \<^verbatim>\<open>Failed to create post\<close>: the \<^verbatim>\<open>message\<close> of the parsed body when
  it is truthy, \<open>what\<close> alone when the body is JSON without such a message, and \<open>what\<close>
  with the status code when the body is not JSON or is \<^verbatim>\<open>null\<close>.
\<close>

definition upstream_error_message :: "jsstring \<Rightarrow> response \<Rightarrow> jsval" where
  "upstream_error_message what r =
     (case json r of
        None \<Rightarrow> JStr (what @ js '': '' @ js (dec_nat (status r)))
      | Some errorData \<Rightarrow>
          (case get_prop errorData (js ''message'') of
             Inl e \<Rightarrow> JStr (what @ js '': '' @ js (dec_nat (status r)))
           | Inr m \<Rightarrow> if truthy m then m else JStr what))"

text \<open>
  The message as the specification words it: the \<^verbatim>\<open>message\<close> field of the parsed body, or,
  when parsing fails, the templated message with the status code.
\<close>

definition spec_error_message :: "jsstring \<Rightarrow> response \<Rightarrow> jsval" where
  "spec_error_message what r =
     (case json r of
        None \<Rightarrow> JStr (what @ js '': '' @ js (dec_nat (status r)))
      | Some errorData \<Rightarrow>
          (case get_prop errorData (js ''message'') of Inl e \<Rightarrow> JUndefined | Inr m \<Rightarrow> m))"

text \<open>
  The file name as the specification words it: the characters outside \<^verbatim>\<open>[A-Za-z0-9]\<close> are
  stripped, the result is truncated to 50 characters, and the suffix and the extension are
  appended.
\<close>

definition spec_filename :: "jsstring \<Rightarrow> jsstring" where
  "spec_filename t = take 50 (filter is_alnum t) @ js ''-featured'' @ js ''.jpg''"

text \<open>The file names of the multipart bodies among the requests.\<close>

definition uploaded_filenames :: "request list \<Rightarrow> jsstring list" where
  "uploaded_filenames sent =
     concat (map (\<lambda>rq. case body rq of FormBody f \<Rightarrow> [filename f] | _ \<Rightarrow> []) sent)"

subsection \<open>Example requests and networks\<close>

text \<open>
  A lower-casing of the ASCII letters, which is what \<^verbatim>\<open>toLowerCase\<close> does on ASCII strings;
  a network that answers the requests in the order of a script; and a request body with
  the credentials of a site.
\<close>

definition ascii_lower :: "jsstring \<Rightarrow> jsstring" where
  "ascii_lower s = map (\<lambda>c. if 0x41 \<le> c \<and> c \<le> 0x5A then c + 0x20 else c) s"

definition scripted :: "fetch_outcome list \<Rightarrow> network" where
  "scripted outcomes sent rq =
     (if length sent < length outcomes then outcomes ! length sent
      else Rejected (js ''ECONNREFUSED''))"

definition json_response :: "nat \<Rightarrow> jsval \<Rightarrow> response" where
  "json_response s v = \<lparr>status = s, location = None, buffer = [], json = Some v\<rparr>"

definition redirect_response :: "nat \<Rightarrow> jsstring \<Rightarrow> response" where
  "redirect_response s l = \<lparr>status = s, location = Some l, buffer = [], json = None\<rparr>"

definition image_response :: "byte list \<Rightarrow> response" where
  "image_response bs = \<lparr>status = 200, location = None, buffer = bs, json = None\<rparr>"

definition example_body :: req_body where
  "example_body =
     \<lparr>siteUrl = JStr (js ''https://blog.example/''), username = JStr (js ''user''),
      appPassword = JStr (js ''pass''), categoryName = JUndefined, imageUrl = JUndefined,
      title = JUndefined, content = JUndefined, featuredImageId = JUndefined,
      categoryId = JUndefined\<rparr>"

definition example_post :: req_body where
  "example_post =
     example_body\<lparr>title := JStr (js ''Hello''), content := JStr (js ''<p>World</p>''),
                  categoryId := JNum 3\<rparr>"

definition example_travel :: req_body where
  "example_travel = example_body\<lparr>categoryName := JStr (js ''travel'')\<rparr>"

definition travel_category :: jsval where
  "travel_category = JObj [(js ''id'', JNum 7), (js ''name'', JStr (js ''Travel''))]"

definition example_upload :: req_body where
  "example_upload =
     example_body\<lparr>imageUrl := JStr (js ''https://img.example/a.png''),
                  title := JStr (js ''Hello World!'')\<rparr>"

definition twice_redirecting :: network where
  "twice_redirecting =
     scripted [Resolved (image_response [1, 2, 3]),
               Resolved (redirect_response 302 (js ''https://www.blog.example/wp-json/wp/v2/media'')),
               Resolved (redirect_response 301 (js ''https://blog.example/wp-json/wp/v2/media''))]"

definition search_unavailable :: network where
  "search_unavailable =
     scripted [Resolved (json_response 503 (JObj [(js ''message'', JStr (js ''Service Unavailable''))])),
               Resolved (json_response 201 (JObj [(js ''id'', JNum 9), (js ''name'', JStr (js ''travel''))]))]"

definition search_empty :: network where
  "search_empty =
     scripted [Resolved (json_response 200 (JArr [])),
               Resolved (json_response 201 (JObj [(js ''id'', JNum 9), (js ''name'', JStr (js ''travel''))]))]"

definition forbidden :: network where
  "forbidden =
     scripted [Resolved (json_response 403
                 (JObj [(js ''code'', JStr (js ''rest_cannot_create'')),
                        (js ''message'', JStr (js ''Sorry, you are not allowed to create posts.''))]))]"

definition error_without_message :: response where
  "error_without_message = json_response 500 (JObj [(js ''code'', JStr (js ''internal_error''))])"

definition created_media :: response where
  "created_media =
     json_response 201
       (JObj [(js ''id'', JNum 42), (js ''source_url'', JStr (js ''https://blog.example/a.jpg''))])"

definition patch_fails :: network where
  "patch_fails = scripted [Resolved (image_response [1, 2, 3]), Resolved created_media]"

definition patch_refused :: network where
  "patch_refused sent rq =
     (case body rq of
        JsonBody v \<Rightarrow> Resolved (json_response 500 JNull)
      | _ \<Rightarrow> patch_fails sent rq)"

section \<open>The credential encoder round-trips\<close>


















section \<open>The requests the handlers issue\<close>

lemma redirect_opt_requests [simp]:
  "redirect_opt (categories_search_request baseUrl authHeader q) = None"
  "redirect_opt (categories_create_request baseUrl authHeader n) = None"
  "redirect_opt (image_request u) = Some Follow"
  "redirect_opt (media_upload_request baseUrl authHeader f) = Some Manual"
  "redirect_opt (media_redirect_request l authHeader f) = None"
  "redirect_opt (media_patch_request baseUrl authHeader i t) = None"
  "redirect_opt (posts_request baseUrl authHeader d) = Some Manual"
  "redirect_opt (posts_redirect_request l authHeader d) = None"
  by (simp_all add: categories_search_request_def categories_create_request_def image_request_def
      media_upload_request_def media_redirect_request_def media_patch_request_def
      posts_request_def posts_redirect_request_def)

lemma body_requests [simp]:
  "body (image_request u) = NoBody"
  "body (media_upload_request baseUrl authHeader f) = FormBody f"
  "body (media_redirect_request l authHeader f) = FormBody f"
  "body (media_patch_request baseUrl authHeader i t)
     = JsonBody (json_object [(js ''alt_text'', t), (js ''title'', t)])"
  "body (posts_request baseUrl authHeader d) = JsonBody d"
  "body (posts_redirect_request l authHeader d) = JsonBody d"
  by (simp_all add: image_request_def media_upload_request_def media_redirect_request_def
      media_patch_request_def posts_request_def posts_redirect_request_def)

lemma url_redirect_requests [simp]:
  "url (media_redirect_request l authHeader f) = l"
  "url (posts_redirect_request l authHeader d) = l"
  by (simp_all add: media_redirect_request_def posts_redirect_request_def)

lemma method_requests [simp]:
  "method_opt (media_upload_request baseUrl authHeader f) = Some (js ''POST'')"
  "method_opt (media_redirect_request l authHeader f) = Some (js ''POST'')"
  "method_opt (posts_request baseUrl authHeader d) = Some (js ''POST'')"
  "method_opt (posts_redirect_request l authHeader d) = Some (js ''POST'')"
  by (simp_all add: media_upload_request_def media_redirect_request_def
      posts_request_def posts_redirect_request_def)

lemma authorization_requests [simp]:
  "authorization (media_upload_request baseUrl authHeader f) = [authHeader]"
  "authorization (media_redirect_request l authHeader f) = [authHeader]"
  "authorization (posts_request baseUrl authHeader d) = [authHeader]"
  "authorization (posts_redirect_request l authHeader d) = [authHeader]"
  by (simp_all add: authorization_def media_upload_request_def media_redirect_request_def
      posts_request_def posts_redirect_request_def js_def)

lemma redirect_not_ok: "is_redirect_status (status r) \<Longrightarrow> \<not> ok r"
  by (auto simp: is_redirect_status_def ok_def)

lemma js_append: "js (a @ b) = js a @ js b"
  by (simp add: js_def)

lemma posts_finish_not_ok:
  "\<not> ok r \<Longrightarrow> posts_finish sent baseUrl r
     = (Reply (status r) (error_body (upstream_error_message (js ''Failed to create post'') r)), sent)"
  by (simp add: posts_finish_def upstream_error_message_def js_append [symmetric]
      split: option.splits sum.splits)

lemma posts_finish_sent: "posts_finish sent baseUrl r = (reply, sent') \<Longrightarrow> sent' = sent"
  by (auto simp: posts_finish_def split: if_splits option.splits sum.splits)

lemma snd_posts_finish [simp]: "snd (posts_finish sent baseUrl r) = sent"
  using posts_finish_sent [of sent baseUrl r] by (metis prod.collapse)

lemma posts_finish_result:
  assumes "posts_finish sent baseUrl r = (reply, sent')"
  shows "sent' = sent
    \<and> (\<not> ok r \<longrightarrow>
         reply = Reply (status r) (error_body (upstream_error_message (js ''Failed to create post'') r)))"
  using assms posts_finish_sent [OF assms] by (auto simp: posts_finish_not_ok)



lemma media_finish_not_ok:
  "\<not> ok r \<Longrightarrow> media_finish net sent baseUrl authHeader t r
     = (Reply (status r) (error_body (upstream_error_message (js ''Failed to upload media'') r)), sent)"
  by (simp add: media_finish_def upstream_error_message_def js_append [symmetric]
      split: option.splits sum.splits)

lemma media_finish_trace:
  "\<exists>reply extra. media_finish net sent baseUrl authHeader t r = (reply, sent @ extra)
     \<and> (extra = [] \<or> (\<exists>i. extra = [media_patch_request baseUrl authHeader i t]))"
  by (auto simp: media_finish_def Let_def split: option.splits sum.splits fetch_outcome.splits)

lemma media_finish_result:
  assumes "media_finish net sent baseUrl authHeader t r = (reply, sent')"
  shows "(sent' = sent \<or> (\<exists>i. sent' = sent @ [media_patch_request baseUrl authHeader i t]))
    \<and> (\<not> ok r \<longrightarrow> sent' = sent \<and>
         reply = Reply (status r) (error_body (upstream_error_message (js ''Failed to upload media'') r)))"
  using assms media_finish_trace [of net sent baseUrl authHeader t r]
  by (auto simp: media_finish_not_ok)

lemma media_upload_trace:
  "\<exists>reply extra.
     media_upload net sent baseUrl authHeader buf n t
       = (reply, sent @ media_upload_request baseUrl authHeader (createFormData 0 buf n) # extra)
     \<and> (extra = []
        \<or> (\<exists>i. extra = [media_patch_request baseUrl authHeader i t])
        \<or> (\<exists>l. extra = [media_redirect_request l authHeader (createFormData 1 buf n)])
        \<or> (\<exists>l i. extra = [media_redirect_request l authHeader (createFormData 1 buf n),
                           media_patch_request baseUrl authHeader i t]))"
proof -
  let ?up = "media_upload_request baseUrl authHeader (createFormData 0 buf n)"
  have one: "\<exists>reply extra. media_finish net (sent @ [?up]) baseUrl authHeader t r
        = (reply, sent @ ?up # extra)
      \<and> (extra = [] \<or> (\<exists>i. extra = [media_patch_request baseUrl authHeader i t]))" for r
    using media_finish_trace [of net "sent @ [?up]" baseUrl authHeader t r] by auto
  have two: "\<exists>reply extra. media_finish net (sent @ [?up, media_redirect_request l authHeader (createFormData 1 buf n)])
          baseUrl authHeader t r
        = (reply, sent @ ?up # extra)
      \<and> (extra = [media_redirect_request l authHeader (createFormData 1 buf n)]
          \<or> (\<exists>i. extra = [media_redirect_request l authHeader (createFormData 1 buf n),
                           media_patch_request baseUrl authHeader i t]))" for r l
    using media_finish_trace [of net "sent @ [?up, media_redirect_request l authHeader (createFormData 1 buf n)]"
        baseUrl authHeader t r] by auto
  show ?thesis
    unfolding media_upload_def Let_def
    using one two
    by (simp split: fetch_outcome.splits option.splits) blast
qed

lemma modes_media:
  "map redirect_opt (snd (wp_media net b))
     = take (length (snd (wp_media net b))) [Some Follow, Some Manual, None, None]"
proof -
  have "map redirect_opt (snd (media_upload net [image_request u] baseUrl authHeader buf n t))
      = take (length (snd (media_upload net [image_request u] baseUrl authHeader buf n t)))
          [Some Follow, Some Manual, None, None]" for u baseUrl authHeader buf n t
    using media_upload_trace [of net "[image_request u]" baseUrl authHeader buf n t]
    by auto
  then show ?thesis
    by (auto simp: wp_media_def Let_def split: fetch_outcome.splits sum.splits)
qed

lemma str_receiver_Inr: "str_receiver v = Inr s \<Longrightarrow> v = JStr s"
  by (cases v) simp_all

lemma wp_media_upload_phase:
  assumes "wp_media net b = (reply, sent)" and "1 < length sent"
  shows "\<exists>site u t img. siteUrl b = JStr site \<and> imageUrl b = JStr u
     \<and> (if truthy (title b) then title b else JStr (js ''featured-image'')) = JStr t
     \<and> net [] (image_request u) = Resolved img \<and> ok img
     \<and> media_upload net [image_request u] (strip_trailing_slash site)
          (getWpAuthHeader (username b) (appPassword b)) (buffer img)
          (safeTitle t @ js ''-featured.jpg'') (title b) = (reply, sent)"
  using assms
  by (auto simp: wp_media_def Let_def split: sum.splits if_splits fetch_outcome.splits
      dest!: str_receiver_Inr)

lemma manual_index_media:
  assumes "wp_media net b = (reply, sent)" and "i < length sent"
    and "redirect_opt (sent ! i) = Some Manual"
  shows "i = 1"
proof -
  from assms(1) have m: "map redirect_opt sent = take (length sent) [Some Follow, Some Manual, None, None]"
    using modes_media [of net b] by simp
  from arg_cong [OF m, of length] have le: "length sent \<le> 4" by simp
  from assms(2) have "redirect_opt (sent ! i) = map redirect_opt sent ! i" by simp
  also have "\<dots> = [Some Follow, Some Manual, None, None] ! i"
    unfolding m using assms(2) by simp
  finally have "[Some Follow, Some Manual, None, None] ! i = Some Manual"
    using assms(3) by simp
  moreover from le assms(2) have "i < 4" by simp
  ultimately show ?thesis
    by (auto simp: nth_Cons' less_Suc_eq numeral_eq_Suc split: if_splits)
qed



lemma rebuilt_createFormData [simp]:
  "rebuilt (FormBody (createFormData 0 buf n)) (FormBody (createFormData 1 buf n))"
  by (simp add: createFormData_def)


section \<open>The payload of a post\<close>

lemma truthy_defined: "truthy v \<Longrightarrow> v \<noteq> JUndefined \<and> v \<noteq> JNull"
  by (cases v) simp_all

lemma wp_posts_bodies:
  assumes "wp_posts net b = (reply, sent)" and "rq \<in> set sent"
  shows "body rq = JsonBody (postData b) \<and> truthy (title b) \<and> truthy (content b)"
  using assms
  by (auto simp: wp_posts_def Let_def
      split: if_splits option.splits sum.splits fetch_outcome.splits
      dest!: posts_finish_sent)

lemma postData_keys:
  assumes "truthy (title b)" and "truthy (content b)"
  shows "postData b =
    JObj ([(js ''title'', title b), (js ''content'', content b), (js ''status'', JStr (js ''draft''))]
        @ (if truthy (featuredImageId b) then [(js ''featured_media'', featuredImageId b)] else [])
        @ (if truthy (categoryId b) then [(js ''categories'', JArr [categoryId b])] else []))"
  using assms by (auto simp: postData_def json_object_def dest: truthy_defined)

lemma post_keys_distinct:
  "js ''status'' \<noteq> js ''title''" "js ''status'' \<noteq> js ''content''"
  "js ''featured_media'' \<noteq> js ''title''" "js ''featured_media'' \<noteq> js ''content''"
  "js ''featured_media'' \<noteq> js ''status''" "js ''featured_media'' \<noteq> js ''categories''"
  "js ''categories'' \<noteq> js ''title''" "js ''categories'' \<noteq> js ''content''"
  "js ''categories'' \<noteq> js ''status''" "js ''categories'' \<noteq> js ''featured_media''"
  by (simp_all add: js_def)

text \<open>
  Claim C8.  Every request the post handler sends upstream carries a JSON object whose
  \<^verbatim>\<open>status\<close> is \<^verbatim>\<open>draft\<close>; the object has \<^verbatim>\<open>featured_media\<close> exactly when \<open>featuredImageId\<close> is
  truthy, and then with that value; it has \<^verbatim>\<open>categories\<close> exactly when \<open>categoryId\<close> is truthy,
  and then the one-element list of it; and no property of the object is \<^verbatim>\<open>null\<close> or
  \<^verbatim>\<open>undefined\<close>: a field that is absent is left out.
\<close>

theorem posts_payload_draft:
  assumes "wp_posts net b = (reply, sent)" and "rq \<in> set sent"
  shows "\<exists>kvs. body rq = JsonBody (JObj kvs)
     \<and> map_of kvs (js ''status'') = Some (JStr (js ''draft''))
     \<and> map_of kvs (js ''featured_media'')
         = (if truthy (featuredImageId b) then Some (featuredImageId b) else None)
     \<and> map_of kvs (js ''categories'')
         = (if truthy (categoryId b) then Some (JArr [categoryId b]) else None)
     \<and> JNull \<notin> snd ` set kvs \<and> JUndefined \<notin> snd ` set kvs"
proof -
  from assms have rq: "body rq = JsonBody (postData b)" and t: "truthy (title b)" "truthy (content b)"
    using wp_posts_bodies by blast+
  show ?thesis
    unfolding rq postData_keys [OF t]
    using t by (auto simp: post_keys_distinct dest: truthy_defined)
qed

text \<open>A post with a category and no featured image.\<close>

theorem posts_payload_draft_witness:
  "wp_posts (scripted [Resolved (json_response 201 (JObj [(js ''id'', JNum 12)]))]) example_post
     = (Reply 200
          (json_object
             [(js ''id'', JNum 12),
              (js ''adminLink'', JStr (js ''https://blog.example/wp-admin/post.php?post=12&action=edit''))]),
        [posts_request (js ''https://blog.example'') (js ''Basic dXNlcjpwYXNz'') (postData example_post)])
   \<and> postData example_post
     = JObj [(js ''title'', JStr (js ''Hello'')), (js ''content'', JStr (js ''<p>World</p>'')),
             (js ''status'', JStr (js ''draft'')), (js ''categories'', JArr [JNum 3])]
   \<and> (\<exists>kvs. postData example_post = JObj kvs
        \<and> map_of kvs (js ''status'') = Some (JStr (js ''draft''))
        \<and> map_of kvs (js ''featured_media'') = None
        \<and> map_of kvs (js ''categories'') = Some (JArr [JNum 3]))"
proof -
  let ?rq = "posts_request (js ''https://blog.example'') (js ''Basic dXNlcjpwYXNz'') (postData example_post)"
  have run: "wp_posts (scripted [Resolved (json_response 201 (JObj [(js ''id'', JNum 12)]))]) example_post
     = (Reply 200
          (json_object
             [(js ''id'', JNum 12),
              (js ''adminLink'', JStr (js ''https://blog.example/wp-admin/post.php?post=12&action=edit''))]),
        [?rq])"
    by code_simp
  have data: "postData example_post
     = JObj [(js ''title'', JStr (js ''Hello'')), (js ''content'', JStr (js ''<p>World</p>'')),
             (js ''status'', JStr (js ''draft'')), (js ''categories'', JArr [JNum 3])]"
    by code_simp
  have ids: "featuredImageId example_post = JUndefined" "categoryId example_post = JNum 3"
    by (simp_all add: example_post_def example_body_def)
  from posts_payload_draft [OF run, of ?rq] run data
  show ?thesis
    by (simp add: ids)
qed

section \<open>Resolving a category\<close>

lemma categories_create_sent:
  "\<exists>reply. categories_create net sent baseUrl authHeader n
     = (reply, sent @ [categories_create_request baseUrl authHeader n])"
  by (auto simp: categories_create_def Let_def split: fetch_outcome.splits option.splits sum.splits)

lemma snd_categories_create:
  "snd (categories_create net sent baseUrl authHeader n)
     = sent @ [categories_create_request baseUrl authHeader n]"
  using categories_create_sent [of net sent baseUrl authHeader n] by auto

lemma encode_undefined: "encodeURIComponent JUndefined = Inr (js ''undefined'')"
  by code_simp

text \<open>
  Claim C10.  The category handler validates \<open>siteUrl\<close>, \<open>username\<close> and \<open>appPassword\<close> only.
  When the three are present (the site URL a non-empty string, the other two truthy, which
  is what the handler's check \<^verbatim>\<open>!siteUrl || !username || !appPassword\<close> tests) and
  \<open>categoryName\<close> is missing, the request is not rejected by the validation, which issues no
  request: the search is the first request issued, with \<^verbatim>\<open>undefined\<close> interpolated in its URL.
\<close>

theorem categories_missing_name:
  assumes "siteUrl b = JStr site" and "site \<noteq> []"
    and "truthy (username b)" and "truthy (appPassword b)"
    and "categoryName b = JUndefined"
  shows "\<exists>reply rest. wp_categories toLowerCase net b =
     (reply,
      categories_search_request (strip_trailing_slash site)
        (getWpAuthHeader (username b) (appPassword b)) (js ''undefined'') # rest)"
proof -
  have "\<exists>rest. snd (wp_categories toLowerCase net b) =
      categories_search_request (strip_trailing_slash site)
        (getWpAuthHeader (username b) (appPassword b)) (js ''undefined'') # rest"
    using assms
    by (auto simp: wp_categories_def Let_def encode_undefined snd_categories_create
        split: fetch_outcome.splits option.splits sum.splits jsval.splits)
  then show ?thesis
    by (metis prod.collapse)
qed

text \<open>The example body has the credentials and no category name; the network is down.\<close>

theorem categories_missing_name_witness:
  "siteUrl example_body = JStr (js ''https://blog.example/'') \<and> js ''https://blog.example/'' \<noteq> []
   \<and> truthy (username example_body) \<and> truthy (appPassword example_body)
   \<and> categoryName example_body = JUndefined
   \<and> strip_trailing_slash (js ''https://blog.example/'') = js ''https://blog.example''
   \<and> url (categories_search_request (js ''https://blog.example'') (js ''Basic dXNlcjpwYXNz'')
          (js ''undefined''))
       = js ''https://blog.example/wp-json/wp/v2/categories?search=undefined''
   \<and> (\<exists>reply rest. wp_categories ascii_lower (scripted []) example_body =
         (reply,
          categories_search_request (js ''https://blog.example'') (js ''Basic dXNlcjpwYXNz'')
            (js ''undefined'') # rest))"
proof -
  have h: "siteUrl example_body = JStr (js ''https://blog.example/'')" "js ''https://blog.example/'' \<noteq> []"
    "truthy (username example_body)" "truthy (appPassword example_body)"
    "categoryName example_body = JUndefined"
    by (simp_all add: example_body_def js_def)
  have e: "strip_trailing_slash (js ''https://blog.example/'') = js ''https://blog.example''"
    "getWpAuthHeader (username example_body) (appPassword example_body) = js ''Basic dXNlcjpwYXNz''"
    "url (categories_search_request (js ''https://blog.example'') (js ''Basic dXNlcjpwYXNz'')
          (js ''undefined''))
       = js ''https://blog.example/wp-json/wp/v2/categories?search=undefined''"
    by code_simp+
  from categories_missing_name [OF h, of ascii_lower "scripted []"] h e
  show ?thesis by simp
qed

lemma category_name_obj: "category_name c = Some s \<Longrightarrow> \<exists>kvs. c = JObj kvs"
  by (cases c) (auto simp: category_name_def)

lemma find_category_find:
  assumes "\<forall>c\<in>set cats. category_name c \<noteq> None"
  shows "find_category lc (JStr n) cats
     = Inr (List.find (\<lambda>c. map_option lc (category_name c) = Some (lc n)) cats)"
  using assms
proof (induction cats)
  case Nil
  show ?case by simp
next
  case (Cons c cats)
  from Cons.prems obtain s where s: "category_name c = Some s" by auto
  then obtain kvs where c: "c = JObj kvs" using category_name_obj by blast
  from s c have "get_prop c (js ''name'') = Inr (JStr s)"
    by (auto simp: category_name_def split: option.splits jsval.splits)
  with s Cons show ?case by simp
qed

text \<open>
  Claim C4.  When the search is answered with a 2xx response whose body is a list of
  categories (entries with a name that is a string), and some entry's name equals the
  requested name under \<^verbatim>\<open>toLowerCase\<close>, the handler replies with the \<open>id\<close> and the \<open>name\<close> of
  the first such entry, and the search is the only request it issued: no category is
  created.  The requested name is a string that \<^verbatim>\<open>encodeURIComponent\<close> accepts, as the search
  was issued.
\<close>

theorem categories_existing_match:
  assumes "siteUrl b = JStr site" and "site \<noteq> []"
    and "truthy (username b)" and "truthy (appPassword b)"
    and "categoryName b = JStr n" and "encodeURIComponent (JStr n) = Inr q"
    and "rq = categories_search_request (strip_trailing_slash site)
               (getWpAuthHeader (username b) (appPassword b)) q"
    and "net [] rq = Resolved r" and "ok r" and "json r = Some (JArr cats)"
    and "\<forall>c\<in>set cats. category_name c \<noteq> None"
    and "List.find (\<lambda>c. map_option toLowerCase (category_name c) = Some (toLowerCase n)) cats = Some c"
  shows "\<exists>i nm. get_prop c (js ''id'') = Inr i \<and> get_prop c (js ''name'') = Inr nm
     \<and> wp_categories toLowerCase net b
         = (Reply 200 (json_object [(js ''id'', i), (js ''name'', nm)]), [rq])"
proof -
  from assms(11,12) have "c \<in> set cats"
    by (auto simp: find_Some_iff)
  with assms(11) obtain s where "category_name c = Some s" by auto
  then obtain kvs where c: "c = JObj kvs" using category_name_obj by blast
  have found: "find_category toLowerCase (JStr n) cats = Inr (Some c)"
    using find_category_find [OF assms(11)] assms(12) by simp
  show ?thesis
    using assms(1-10) found c
    by (simp add: wp_categories_def Let_def)
qed

text \<open>Resolving \<^verbatim>\<open>travel\<close> when the site has the category \<^verbatim>\<open>Travel\<close> with id 7.\<close>

theorem categories_existing_match_witness:
  "wp_categories ascii_lower (scripted [Resolved (json_response 200 (JArr [travel_category]))])
     example_travel
     = (Reply 200 (json_object [(js ''id'', JNum 7), (js ''name'', JStr (js ''Travel''))]),
        [categories_search_request (js ''https://blog.example'') (js ''Basic dXNlcjpwYXNz'')
           (js ''travel'')])
   \<and> ascii_lower (js ''Travel'') = ascii_lower (js ''travel'')
   \<and> category_name travel_category = Some (js ''Travel'')"
proof -
  let ?net = "scripted [Resolved (json_response 200 (JArr [travel_category]))]"
  let ?rq = "categories_search_request (js ''https://blog.example'') (js ''Basic dXNlcjpwYXNz'')
           (js ''travel'')"
  have h: "siteUrl example_travel = JStr (js ''https://blog.example/'')"
    "js ''https://blog.example/'' \<noteq> []"
    "truthy (username example_travel)" "truthy (appPassword example_travel)"
    "categoryName example_travel = JStr (js ''travel'')"
    by (simp_all add: example_travel_def example_body_def js_def)
  have q: "encodeURIComponent (JStr (js ''travel'')) = Inr (js ''travel'')"
    by code_simp
  have rq: "?rq = categories_search_request (strip_trailing_slash (js ''https://blog.example/''))
               (getWpAuthHeader (username example_travel) (appPassword example_travel)) (js ''travel'')"
    by code_simp
  have net: "?net [] ?rq = Resolved (json_response 200 (JArr [travel_category]))"
    by (simp add: scripted_def)
  have r: "ok (json_response 200 (JArr [travel_category]))"
    "json (json_response 200 (JArr [travel_category])) = Some (JArr [travel_category])"
    by (simp_all add: ok_def json_response_def)
  have name: "category_name travel_category = Some (js ''Travel'')"
    by code_simp
  have lower: "ascii_lower (js ''Travel'') = ascii_lower (js ''travel'')"
    by code_simp
  have cats: "\<forall>c\<in>set [travel_category]. category_name c \<noteq> None"
    by (simp add: name)
  have find: "List.find (\<lambda>c. map_option ascii_lower (category_name c) = Some (ascii_lower (js ''travel'')))
       [travel_category] = Some travel_category"
    by (simp add: name lower)
  have props: "get_prop travel_category (js ''id'') = Inr (JNum 7)"
    "get_prop travel_category (js ''name'') = Inr (JStr (js ''Travel''))"
    by code_simp+
  from categories_existing_match [where toLowerCase = ascii_lower and n = "js ''travel''"
      and c = travel_category and net = ?net and b = example_travel and rq = ?rq,
      OF h q rq net r cats find] props name lower
  show ?thesis by simp
qed

section \<open>The redirect that is followed by hand\<close>



section \<open>Which requests are issued without automatic redirects\<close>

lemma modes_categories:
  "map redirect_opt (snd (wp_categories toLowerCase net b))
     = replicate (length (snd (wp_categories toLowerCase net b))) None"
  by (auto simp: wp_categories_def Let_def snd_categories_create
      split: fetch_outcome.splits option.splits sum.splits jsval.splits)

lemma modes_posts:
  "map redirect_opt (snd (wp_posts net b))
     = take (length (snd (wp_posts net b))) [Some Manual, None]"
  by (auto simp: wp_posts_def Let_def
      split: fetch_outcome.splits option.splits sum.splits)

text \<open>
  Claim C3, as the specification states it, asks that every upstream request of the
  category resolver, the media uploader and the post creator be issued without automatic
  redirect following.  The category handler passes no \<^verbatim>\<open>redirect\<close> option at all: its search
  request is issued with node-fetch's default, which follows redirects.
\<close>

theorem category_search_follows_redirects:
  "\<not> (\<forall>rq \<in> set (snd (wp_categories ascii_lower search_empty example_travel)).
         redirect_opt rq = Some Manual)"
proof -
  have "map redirect_opt (snd (wp_categories ascii_lower search_empty example_travel)) = [None, None]"
    by code_simp
  then have "\<exists>rq \<in> set (snd (wp_categories ascii_lower search_empty example_travel)).
      redirect_opt rq = None"
    by (cases "snd (wp_categories ascii_lower search_empty example_travel)") simp_all
  then show ?thesis
    by (metis option.distinct(1))
qed

text \<open>
  Claim C3, amended.  The redirect options of the requests of a handler, in the order the
  requests are issued: none for the search and the creation of a category; \<^verbatim>\<open>follow\<close> for the
  fetch of the source image, \<^verbatim>\<open>manual\<close> for the upload, none for the redirect follow-up and
  for the alt-text request; \<^verbatim>\<open>manual\<close> for the submission of a post and none for its redirect
  follow-up.  So the upload and the submission of a post, and only they, are issued
  without automatic redirect following.
\<close>

theorem redirect_modes:
  "map redirect_opt (snd (wp_categories toLowerCase net b))
     = replicate (length (snd (wp_categories toLowerCase net b))) None
   \<and> map redirect_opt (snd (wp_media net b))
     = take (length (snd (wp_media net b))) [Some Follow, Some Manual, None, None]
   \<and> map redirect_opt (snd (wp_posts net b))
     = take (length (snd (wp_posts net b))) [Some Manual, None]"
  using modes_categories modes_media modes_posts by blast

text \<open>The redirected upload, and a category that is searched and then created.\<close>

theorem redirect_modes_witness:
  "map redirect_opt (snd (wp_media twice_redirecting example_upload))
     = [Some Follow, Some Manual, None]
   \<and> map redirect_opt (snd (wp_categories ascii_lower search_unavailable example_travel))
     = [None, None]"
proof -
  have a: "length (snd (wp_media twice_redirecting example_upload)) = 3"
    by code_simp
  have b: "length (snd (wp_categories ascii_lower search_unavailable example_travel)) = 2"
    by code_simp
  from redirect_modes [of ascii_lower search_unavailable example_travel]
    redirect_modes [of ascii_lower twice_redirecting example_upload]
  show ?thesis
    by (simp add: a b numeral_eq_Suc)
qed

section \<open>A failed category search\<close>

lemma categories_create_net:
  "net' sent = net sent \<Longrightarrow>
   categories_create net' sent baseUrl authHeader n = categories_create net sent baseUrl authHeader n"
  by (simp add: categories_create_def)

lemma categories_search_not_ok_response:
  assumes "siteUrl b = JStr site" and "site \<noteq> []"
    and "truthy (username b)" and "truthy (appPassword b)"
    and "encodeURIComponent (categoryName b) = Inr q"
    and "rq = categories_search_request (strip_trailing_slash site)
               (getWpAuthHeader (username b) (appPassword b)) q"
    and "net [] rq = Resolved r" and "\<not> ok r"
  shows "snd (wp_categories toLowerCase net b)
       = [rq, categories_create_request (strip_trailing_slash site)
                (getWpAuthHeader (username b) (appPassword b)) (categoryName b)]
     \<and> (\<forall>net' r'. net' [] rq = Resolved r' \<and> ok r' \<and> json r' = Some (JArr [])
            \<and> net' [rq] = net [rq]
          \<longrightarrow> wp_categories toLowerCase net' b = wp_categories toLowerCase net b)"
proof -
  let ?create = "\<lambda>net. categories_create net [rq] (strip_trailing_slash site)
                   (getWpAuthHeader (username b) (appPassword b)) (categoryName b)"
  have failed: "wp_categories toLowerCase net b = ?create net"
    using assms by (simp add: wp_categories_def Let_def)
  have empty: "wp_categories toLowerCase net' b = ?create net'"
    if "net' [] rq = Resolved r'" "ok r'" "json r' = Some (JArr [])" for net' r'
    using assms(1-6) that by (simp add: wp_categories_def Let_def)
  show ?thesis
  proof (intro conjI allI impI)
    show "snd (wp_categories toLowerCase net b)
       = [rq, categories_create_request (strip_trailing_slash site)
                (getWpAuthHeader (username b) (appPassword b)) (categoryName b)]"
      unfolding failed by (simp add: snd_categories_create)
  next
    fix net' r'
    assume a: "net' [] rq = Resolved r' \<and> ok r' \<and> json r' = Some (JArr []) \<and> net' [rq] = net [rq]"
    then have "wp_categories toLowerCase net' b = ?create net'"
      using empty by blast
    also from a have "?create net' = ?create net"
      by (intro categories_create_net) simp
    finally show "wp_categories toLowerCase net' b = wp_categories toLowerCase net b"
      using failed by simp
  qed
qed

text \<open>
  Claim C5, as the specification states it, has the resolver go on to create the category
  after any failure of the search, a network-level error included.  The handler awaits
  the search inside its only \<^verbatim>\<open>try\<close> block: when the \<^verbatim>\<open>fetch\<close> rejects, the outer \<^verbatim>\<open>catch\<close>
  replies 500 with the error's message, and no category is created.
\<close>

theorem categories_search_rejected:
  "wp_categories ascii_lower (scripted []) example_travel
     = (InternalError (FetchError (js ''ECONNREFUSED'')),
        [categories_search_request (js ''https://blog.example'') (js ''Basic dXNlcjpwYXNz'')
           (js ''travel'')])
   \<and> \<not> (\<exists>rq \<in> set (snd (wp_categories ascii_lower (scripted []) example_travel)).
          method_opt rq = Some (js ''POST''))"
proof -
  have run: "wp_categories ascii_lower (scripted []) example_travel
     = (InternalError (FetchError (js ''ECONNREFUSED'')),
        [categories_search_request (js ''https://blog.example'') (js ''Basic dXNlcjpwYXNz'')
           (js ''travel'')])"
    by code_simp
  show ?thesis
    unfolding run by (simp add: categories_search_request_def)
qed

text \<open>
  Claim C5, amended.  When the search is answered with a response that is not 2xx, the
  handler goes on to the creation step: the creation request is the second and last
  request it issues, and reply and requests are what they are when the search is answered
  with a 2xx response and an empty list, the network being the same after the search.
  When the search is rejected, the handler replies with the 500 of its outer \<^verbatim>\<open>catch\<close> and
  the search is the only request it issued.
\<close>

theorem categories_search_not_ok:
  assumes "siteUrl b = JStr site" and "site \<noteq> []"
    and "truthy (username b)" and "truthy (appPassword b)"
    and "encodeURIComponent (categoryName b) = Inr q"
    and "rq = categories_search_request (strip_trailing_slash site)
               (getWpAuthHeader (username b) (appPassword b)) q"
  shows "(\<forall>r. net [] rq = Resolved r \<and> \<not> ok r \<longrightarrow>
            snd (wp_categories toLowerCase net b)
              = [rq, categories_create_request (strip_trailing_slash site)
                       (getWpAuthHeader (username b) (appPassword b)) (categoryName b)]
            \<and> (\<forall>net' r'. net' [] rq = Resolved r' \<and> ok r' \<and> json r' = Some (JArr [])
                   \<and> net' [rq] = net [rq]
                 \<longrightarrow> wp_categories toLowerCase net' b = wp_categories toLowerCase net b))
     \<and> (\<forall>m. net [] rq = Rejected m \<longrightarrow>
            wp_categories toLowerCase net b = (InternalError (FetchError m), [rq]))"
proof -
  have response: "\<forall>r. net [] rq = Resolved r \<and> \<not> ok r \<longrightarrow>
            snd (wp_categories toLowerCase net b)
              = [rq, categories_create_request (strip_trailing_slash site)
                       (getWpAuthHeader (username b) (appPassword b)) (categoryName b)]
            \<and> (\<forall>net' r'. net' [] rq = Resolved r' \<and> ok r' \<and> json r' = Some (JArr [])
                   \<and> net' [rq] = net [rq]
                 \<longrightarrow> wp_categories toLowerCase net' b = wp_categories toLowerCase net b)"
  proof (intro allI impI)
    fix r
    assume "net [] rq = Resolved r \<and> \<not> ok r"
    then have "net [] rq = Resolved r" and "\<not> ok r" by simp_all
    from categories_search_not_ok_response [where net = net and toLowerCase = toLowerCase,
        OF assms this]
    show "snd (wp_categories toLowerCase net b)
            = [rq, categories_create_request (strip_trailing_slash site)
                     (getWpAuthHeader (username b) (appPassword b)) (categoryName b)]
          \<and> (\<forall>net' r'. net' [] rq = Resolved r' \<and> ok r' \<and> json r' = Some (JArr [])
                 \<and> net' [rq] = net [rq]
               \<longrightarrow> wp_categories toLowerCase net' b = wp_categories toLowerCase net b)" .
  qed
  have rejection: "\<forall>m. net [] rq = Rejected m \<longrightarrow>
            wp_categories toLowerCase net b = (InternalError (FetchError m), [rq])"
    using assms by (simp add: wp_categories_def Let_def)
  from response rejection show ?thesis by (rule conjI)
qed

text \<open>A search answered with 503, against a search answered with the empty list.\<close>

theorem categories_search_not_ok_witness:
  "wp_categories ascii_lower search_unavailable example_travel
     = (Reply 200 (json_object [(js ''id'', JNum 9), (js ''name'', JStr (js ''travel''))]),
        [categories_search_request (js ''https://blog.example'') (js ''Basic dXNlcjpwYXNz'')
           (js ''travel''),
         categories_create_request (js ''https://blog.example'') (js ''Basic dXNlcjpwYXNz'')
           (JStr (js ''travel''))])
   \<and> wp_categories ascii_lower search_empty example_travel
     = wp_categories ascii_lower search_unavailable example_travel"
proof -
  let ?rq = "categories_search_request (js ''https://blog.example'') (js ''Basic dXNlcjpwYXNz'')
           (js ''travel'')"
  let ?r = "json_response 503 (JObj [(js ''message'', JStr (js ''Service Unavailable''))])"
  have h: "siteUrl example_travel = JStr (js ''https://blog.example/'')"
    "js ''https://blog.example/'' \<noteq> []"
    "truthy (username example_travel)" "truthy (appPassword example_travel)"
    by (simp_all add: example_travel_def example_body_def js_def)
  have q: "encodeURIComponent (categoryName example_travel) = Inr (js ''travel'')"
    by code_simp
  have rq: "?rq = categories_search_request (strip_trailing_slash (js ''https://blog.example/''))
               (getWpAuthHeader (username example_travel) (appPassword example_travel)) (js ''travel'')"
    by code_simp
  have net: "search_unavailable [] ?rq = Resolved ?r"
    by (simp add: search_unavailable_def scripted_def)
  have r: "\<not> ok ?r"
    by (simp add: ok_def json_response_def)
  have net': "search_empty [] ?rq = Resolved (json_response 200 (JArr []))"
    "ok (json_response 200 (JArr []))" "json (json_response 200 (JArr [])) = Some (JArr [])"
    "search_empty [?rq] = search_unavailable [?rq]"
    by (simp_all add: search_empty_def search_unavailable_def scripted_def ok_def json_response_def
        fun_eq_iff)
  have run: "wp_categories ascii_lower search_unavailable example_travel
     = (Reply 200 (json_object [(js ''id'', JNum 9), (js ''name'', JStr (js ''travel''))]),
        [?rq,
         categories_create_request (js ''https://blog.example'') (js ''Basic dXNlcjpwYXNz'')
           (JStr (js ''travel''))])"
    by code_simp
  from categories_search_not_ok [where toLowerCase = ascii_lower and net = search_unavailable
      and b = example_travel and rq = ?rq, OF h q rq]
  have "search_unavailable [] ?rq = Resolved ?r \<and> \<not> ok ?r \<longrightarrow>
      snd (wp_categories ascii_lower search_unavailable example_travel)
        = [?rq, categories_create_request (strip_trailing_slash (js ''https://blog.example/''))
                  (getWpAuthHeader (username example_travel) (appPassword example_travel))
                  (categoryName example_travel)]
      \<and> (\<forall>net' r'. net' [] ?rq = Resolved r' \<and> ok r' \<and> json r' = Some (JArr [])
            \<and> net' [?rq] = search_unavailable [?rq]
          \<longrightarrow> wp_categories ascii_lower net' example_travel
              = wp_categories ascii_lower search_unavailable example_travel)"
    by (elim conjE allE)
  with net r
  have "\<forall>net' r'. net' [] ?rq = Resolved r' \<and> ok r' \<and> json r' = Some (JArr [])
            \<and> net' [?rq] = search_unavailable [?rq]
          \<longrightarrow> wp_categories ascii_lower net' example_travel
              = wp_categories ascii_lower search_unavailable example_travel"
    by (elim impE conjE) (intro conjI)
  then have "search_empty [] ?rq = Resolved (json_response 200 (JArr []))
       \<and> ok (json_response 200 (JArr [])) \<and> json (json_response 200 (JArr [])) = Some (JArr [])
            \<and> search_empty [?rq] = search_unavailable [?rq]
          \<longrightarrow> wp_categories ascii_lower search_empty example_travel
              = wp_categories ascii_lower search_unavailable example_travel"
    by (elim allE)
  with net' have "wp_categories ascii_lower search_empty example_travel
              = wp_categories ascii_lower search_unavailable example_travel"
    by (elim impE) (intro conjI)
  with run show ?thesis by (intro conjI)
qed

section \<open>An upstream response that is not 2xx\<close>

lemma media_upload_cases:
  assumes "media_upload net sent0 baseUrl authHeader buf n t = (reply, sent)"
  shows "(\<exists>m. net sent0 (media_upload_request baseUrl authHeader (createFormData 0 buf n)) = Rejected m
            \<and> sent = sent0 @ [media_upload_request baseUrl authHeader (createFormData 0 buf n)]
            \<and> reply = InternalError (FetchError m))
     \<or> (\<exists>r. net sent0 (media_upload_request baseUrl authHeader (createFormData 0 buf n)) = Resolved r
            \<and> \<not> (is_redirect_status (status r) \<and> (\<exists>l. location r = Some l \<and> l \<noteq> []))
            \<and> media_finish net (sent0 @ [media_upload_request baseUrl authHeader (createFormData 0 buf n)])
                  baseUrl authHeader t r = (reply, sent))
     \<or> (\<exists>r l. net sent0 (media_upload_request baseUrl authHeader (createFormData 0 buf n)) = Resolved r
            \<and> is_redirect_status (status r) \<and> location r = Some l \<and> l \<noteq> []
            \<and> ((\<exists>m. net (sent0 @ [media_upload_request baseUrl authHeader (createFormData 0 buf n)])
                        (media_redirect_request l authHeader (createFormData 1 buf n)) = Rejected m
                    \<and> sent = sent0 @ [media_upload_request baseUrl authHeader (createFormData 0 buf n),
                                       media_redirect_request l authHeader (createFormData 1 buf n)]
                    \<and> reply = InternalError (FetchError m))
               \<or> (\<exists>r'. net (sent0 @ [media_upload_request baseUrl authHeader (createFormData 0 buf n)])
                        (media_redirect_request l authHeader (createFormData 1 buf n)) = Resolved r'
                    \<and> media_finish net
                          (sent0 @ [media_upload_request baseUrl authHeader (createFormData 0 buf n),
                                    media_redirect_request l authHeader (createFormData 1 buf n)])
                          baseUrl authHeader t r' = (reply, sent))))"
  using assms
  by (auto simp: media_upload_def Let_def split: fetch_outcome.splits option.splits if_splits)


lemma media_error_relayed:
  assumes run: "wp_media net b = (reply, sent)"
    and i: "i < length sent" "redirect_opt (sent ! i) = Some Manual"
    and final: "length sent = Suc i
                \<or> (length sent = Suc (Suc i) \<and> rebuilt (body (sent ! i)) (body (sent ! Suc i)))"
    and r: "net (butlast sent) (last sent) = Resolved r" "\<not> ok r"
  shows "reply = Reply (status r) (error_body (upstream_error_message (js ''Failed to upload media'') r))"
proof -
  have i1: "i = 1" using manual_index_media [OF run i] .
  with i have "1 < length sent" by simp
  from wp_media_upload_phase [OF run this] obtain site u t and img :: response where
    mu: "media_upload net [image_request u] (strip_trailing_slash site)
          (getWpAuthHeader (username b) (appPassword b)) (buffer img)
          (safeTitle t @ js ''-featured.jpg'') (title b) = (reply, sent)"
    by (elim exE conjE) (rule that)
  let ?base = "strip_trailing_slash site"
  let ?auth = "getWpAuthHeader (username b) (appPassword b)"
  let ?up = "media_upload_request ?base ?auth
               (createFormData 0 (buffer img) (safeTitle t @ js ''-featured.jpg''))"
  let ?rd = "\<lambda>l. media_redirect_request l ?auth
               (createFormData 1 (buffer img) (safeTitle t @ js ''-featured.jpg''))"
  from media_upload_cases [OF mu]
  consider (rejected) m where "net [image_request u] ?up = Rejected m" "sent = [image_request u, ?up]"
    | (direct) r0 where "net [image_request u] ?up = Resolved r0"
        "media_finish net [image_request u, ?up] ?base ?auth (title b) r0 = (reply, sent)"
    | (lost) l m where "net [image_request u, ?up] (?rd l) = Rejected m"
        "sent = [image_request u, ?up, ?rd l]"
    | (followed) l r' where "net [image_request u, ?up] (?rd l) = Resolved r'"
        "media_finish net [image_request u, ?up, ?rd l] ?base ?auth (title b) r' = (reply, sent)"
    by auto
  then show ?thesis
  proof cases
    case rejected
    with r show ?thesis by simp
  next
    case direct
    from media_finish_result [OF direct(2)] direct(1) r final i1 show ?thesis
      by auto
  next
    case lost
    with r show ?thesis by simp
  next
    case followed
    from media_finish_result [OF followed(2)] followed(1) r final i1 show ?thesis
      by auto
  qed
qed

lemma posts_error_relayed:
  assumes run: "wp_posts net b = (reply, sent)"
    and i: "i < length sent" "redirect_opt (sent ! i) = Some Manual"
    and final: "length sent = Suc i
                \<or> (length sent = Suc (Suc i) \<and> rebuilt (body (sent ! i)) (body (sent ! Suc i)))"
    and r: "net (butlast sent) (last sent) = Resolved r" "\<not> ok r"
  shows "reply = Reply (status r) (error_body (upstream_error_message (js ''Failed to create post'') r))"
  using assms
  apply (simp add: wp_posts_def Let_def split: sum.splits if_splits fetch_outcome.splits option.splits)
  apply (auto simp: nth_Cons' less_Suc_eq dest!: posts_finish_result split: if_splits)
  done

text \<open>
  Claim C2, as the specification states it, makes the relayed message the \<^verbatim>\<open>message\<close> field
  of the parsed body, or the templated message with the status code when parsing fails.
  For a body that is JSON and has no \<^verbatim>\<open>message\<close> the handler relays neither: it falls back,
  by \<^verbatim>\<open>errorData.message || 'Failed to create post'\<close>, to a fixed message without the status
  code.
\<close>

theorem error_without_message_not_as_specified:
  "fst (wp_posts (scripted [Resolved error_without_message]) example_post)
     = Reply 500 (error_body (JStr (js ''Failed to create post'')))
   \<and> fst (wp_posts (scripted [Resolved error_without_message]) example_post)
     \<noteq> Reply (status error_without_message)
         (error_body (spec_error_message (js ''Failed to create post'') error_without_message))"
proof -
  have a: "fst (wp_posts (scripted [Resolved error_without_message]) example_post)
     = Reply 500 (error_body (JStr (js ''Failed to create post'')))"
    by code_simp
  have b: "spec_error_message (js ''Failed to create post'') error_without_message = JUndefined"
    by code_simp
  show ?thesis
    unfolding a b by (simp add: error_body_def json_object_def)
qed

text \<open>
  Claim C2, amended.  The final upstream response of an upload or of a post submission is
  the response to the last request, when that is the request issued with
  \<^verbatim>\<open>redirect: 'manual'\<close> or its follow-up with the rebuilt body.  When it is not 2xx, the
  handler replies with the status of that response (it does not throw, and the reply is
  not the 500 of the outer \<^verbatim>\<open>catch\<close>) and with the message \<open>upstream_error_message\<close>: the
  \<^verbatim>\<open>message\<close> of the parsed body when it is truthy, the fixed message of the operation when
  the body is JSON without a truthy \<^verbatim>\<open>message\<close>, and the fixed message followed by the status
  code when the body is not JSON (or is \<^verbatim>\<open>null\<close>).
\<close>

theorem upstream_error_relayed:
  assumes "(handler = wp_media \<and> what = js ''Failed to upload media'')
           \<or> (handler = wp_posts \<and> what = js ''Failed to create post'')"
    and "handler net b = (reply, sent)"
    and "i < length sent" and "redirect_opt (sent ! i) = Some Manual"
    and "length sent = Suc i
         \<or> (length sent = Suc (Suc i) \<and> rebuilt (body (sent ! i)) (body (sent ! Suc i)))"
    and "net (butlast sent) (last sent) = Resolved r" and "\<not> ok r"
  shows "reply = Reply (status r) (error_body (upstream_error_message what r))"
  using assms(1)
proof (elim disjE conjE)
  assume "handler = wp_media" and what: "what = js ''Failed to upload media''"
  with assms(2) have "wp_media net b = (reply, sent)" by simp
  from media_error_relayed [OF this assms(3-7)] what show ?thesis by simp
next
  assume "handler = wp_posts" and what: "what = js ''Failed to create post''"
  with assms(2) have "wp_posts net b = (reply, sent)" by simp
  from posts_error_relayed [OF this assms(3-7)] what show ?thesis by simp
qed

text \<open>
  A post that the site forbids, with a message in the body, and the upload whose follow-up
  is answered with a 301 and no JSON.
\<close>

theorem upstream_error_relayed_witness:
  "wp_posts forbidden example_post
     = (Reply 403 (error_body (JStr (js ''Sorry, you are not allowed to create posts.''))),
        [posts_request (js ''https://blog.example'') (js ''Basic dXNlcjpwYXNz'') (postData example_post)])
   \<and> wp_media twice_redirecting example_upload
     = (Reply 301 (error_body (JStr (js ''Failed to upload media: 301''))),
        [image_request (js ''https://img.example/a.png''),
         media_upload_request (js ''https://blog.example'') (js ''Basic dXNlcjpwYXNz'')
           (createFormData 0 [1, 2, 3] (js ''Hello-World--featured.jpg'')),
         media_redirect_request (js ''https://www.blog.example/wp-json/wp/v2/media'')
           (js ''Basic dXNlcjpwYXNz'')
           (createFormData 1 [1, 2, 3] (js ''Hello-World--featured.jpg''))])"
proof -
  let ?rq = "posts_request (js ''https://blog.example'') (js ''Basic dXNlcjpwYXNz'') (postData example_post)"
  let ?r = "json_response 403
                 (JObj [(js ''code'', JStr (js ''rest_cannot_create'')),
                        (js ''message'', JStr (js ''Sorry, you are not allowed to create posts.''))])"
  obtain reply sent where run: "wp_posts forbidden example_post = (reply, sent)"
    by (cases "wp_posts forbidden example_post")
  have "snd (wp_posts forbidden example_post) = [?rq]"
    by code_simp
  with run have sent: "sent = [?rq]"
    by simp
  have i: "0 < length sent" "redirect_opt (sent ! 0) = Some Manual" "length sent = Suc 0"
    by (simp_all add: sent)
  have net: "forbidden (butlast sent) (last sent) = Resolved ?r" "\<not> ok ?r"
    by (simp_all add: sent forbidden_def scripted_def ok_def json_response_def)
  have msg: "upstream_error_message (js ''Failed to create post'') ?r
      = JStr (js ''Sorry, you are not allowed to create posts.'')"
    by code_simp
  have st: "status ?r = 403"
    by (simp add: json_response_def)
  have media: "wp_media twice_redirecting example_upload
     = (Reply 301 (error_body (JStr (js ''Failed to upload media: 301''))),
        [image_request (js ''https://img.example/a.png''),
         media_upload_request (js ''https://blog.example'') (js ''Basic dXNlcjpwYXNz'')
           (createFormData 0 [1, 2, 3] (js ''Hello-World--featured.jpg'')),
         media_redirect_request (js ''https://www.blog.example/wp-json/wp/v2/media'')
           (js ''Basic dXNlcjpwYXNz'')
           (createFormData 1 [1, 2, 3] (js ''Hello-World--featured.jpg''))])"
    by code_simp
  from upstream_error_relayed [where handler = wp_posts and what = "js ''Failed to create post''"
      and net = forbidden and i = 0, OF _ run i(1,2) disjI1 [OF i(3)] net]
  have "reply = Reply 403 (error_body (JStr (js ''Sorry, you are not allowed to create posts.'')))"
    by (simp add: msg st)
  with run sent media show ?thesis by simp
qed

section \<open>The file that is uploaded\<close>

lemma wp_media_short:
  assumes "wp_media net b = (reply, sent)" and "\<not> 1 < length sent"
  shows "\<forall>rq\<in>set sent. body rq = NoBody"
proof -
  have "1 < length (snd (media_upload net [image_request u] baseUrl authHeader buf n t))"
    for u baseUrl authHeader buf n t
    using media_upload_trace [of net "[image_request u]" baseUrl authHeader buf n t] by auto
  then have "\<not> 1 < length (snd (wp_media net b)) \<longrightarrow> (\<forall>rq\<in>set (snd (wp_media net b)). body rq = NoBody)"
    by (auto simp: wp_media_def Let_def split: fetch_outcome.splits sum.splits)
  with assms show ?thesis by simp
qed

lemma wp_media_forms:
  assumes run: "wp_media net b = (reply, sent)" and rq: "rq \<in> set sent" "body rq = FormBody f"
  shows "\<exists>t buf k. (if truthy (title b) then title b else JStr (js ''featured-image'')) = JStr t
     \<and> f = createFormData k buf (safeTitle t @ js ''-featured.jpg'')"
proof -
  have long: "1 < length sent"
  proof (rule ccontr)
    assume "\<not> 1 < length sent"
    from wp_media_short [OF run this] rq show False by auto
  qed
  from wp_media_upload_phase [OF run long] obtain site u t and img :: response where
    t: "(if truthy (title b) then title b else JStr (js ''featured-image'')) = JStr t"
    and mu: "media_upload net [image_request u] (strip_trailing_slash site)
          (getWpAuthHeader (username b) (appPassword b)) (buffer img)
          (safeTitle t @ js ''-featured.jpg'') (title b) = (reply, sent)"
    by (elim exE conjE) (rule that)
  from media_upload_trace [of net "[image_request u]" "strip_trailing_slash site"
      "getWpAuthHeader (username b) (appPassword b)" "buffer img" "safeTitle t @ js ''-featured.jpg''"
      "title b"] mu rq
  have "f = createFormData 0 (buffer img) (safeTitle t @ js ''-featured.jpg'')
      \<or> f = createFormData 1 (buffer img) (safeTitle t @ js ''-featured.jpg'')"
    by auto
  with t show ?thesis by blast
qed

text \<open>
  Claim C6, as the specification states it, has the characters outside \<^verbatim>\<open>[A-Za-z0-9]\<close>
  stripped from the title.  The handler replaces each of them by a hyphen: for the title
  \<^verbatim>\<open>Hello World!\<close> it uploads \<^verbatim>\<open>Hello-World--featured.jpg\<close>, not \<^verbatim>\<open>HelloWorld-featured.jpg\<close>.
\<close>

theorem filename_not_stripped:
  "spec_filename (js ''Hello World!'') = js ''HelloWorld-featured.jpg''
   \<and> spec_filename (js ''Hello World!'')
       \<notin> set (uploaded_filenames (snd (wp_media twice_redirecting example_upload)))"
proof -
  have a: "spec_filename (js ''Hello World!'') = js ''HelloWorld-featured.jpg''"
    by code_simp
  have b: "uploaded_filenames (snd (wp_media twice_redirecting example_upload))
     = [js ''Hello-World--featured.jpg'', js ''Hello-World--featured.jpg'']"
    by code_simp
  have c: "js ''HelloWorld-featured.jpg'' \<noteq> js ''Hello-World--featured.jpg''"
    by (simp add: js_def)
  show ?thesis
    unfolding a b using c by simp
qed

text \<open>
  Claim C6, amended.  Every multipart body the media handler sends (the upload and its
  redirect follow-up) names the file after the title, or after \<^verbatim>\<open>featured-image\<close> when the
  title is absent or empty: each code unit outside \<^verbatim>\<open>[A-Za-z0-9]\<close> of the first 50 is replaced
  by a hyphen, and \<^verbatim>\<open>-featured.jpg\<close> is appended.  The content type of the file is
  \<^verbatim>\<open>image/jpeg\<close>, whatever the source image is.
\<close>

theorem upload_filename:
  assumes "wp_media net b = (reply, sent)" and "rq \<in> set sent" and "body rq = FormBody f"
  shows "\<exists>t. (if truthy (title b) then title b else JStr (js ''featured-image'')) = JStr t
     \<and> filename f = map (\<lambda>c. if is_alnum c then c else 0x2D) (take 50 t) @ js ''-featured.jpg''
     \<and> contentType f = js ''image/jpeg''"
proof -
  from wp_media_forms [OF assms] obtain t buf k where
    t: "(if truthy (title b) then title b else JStr (js ''featured-image'')) = JStr t"
    and f: "f = createFormData k buf (safeTitle t @ js ''-featured.jpg'')"
    by blast
  have "filename f = map (\<lambda>c. if is_alnum c then c else 0x2D) (take 50 t) @ js ''-featured.jpg''"
    by (simp add: f createFormData_def safeTitle_def take_map)
  moreover have "contentType f = js ''image/jpeg''"
    by (simp add: f createFormData_def)
  ultimately show ?thesis using t by blast
qed

text \<open>The two multipart bodies of the redirected upload.\<close>

theorem upload_filename_witness:
  "uploaded_filenames (snd (wp_media twice_redirecting example_upload))
     = [js ''Hello-World--featured.jpg'', js ''Hello-World--featured.jpg'']
   \<and> map (\<lambda>c. if is_alnum c then c else 0x2D) (take 50 (js ''Hello World!'')) @ js ''-featured.jpg''
     = js ''Hello-World--featured.jpg''
   \<and> contentType (createFormData 0 [1, 2, 3] (js ''Hello-World--featured.jpg'')) = js ''image/jpeg''"
proof -
  let ?f = "createFormData 0 [1, 2, 3] (js ''Hello-World--featured.jpg'')"
  let ?up = "media_upload_request (js ''https://blog.example'') (js ''Basic dXNlcjpwYXNz'') ?f"
  let ?rd = "media_redirect_request (js ''https://www.blog.example/wp-json/wp/v2/media'')
         (js ''Basic dXNlcjpwYXNz'')
         (createFormData 1 [1, 2, 3] (js ''Hello-World--featured.jpg''))"
  let ?sent = "[image_request (js ''https://img.example/a.png''), ?up, ?rd]"
  have run: "wp_media twice_redirecting example_upload =
     (Reply 301 (error_body (JStr (js ''Failed to upload media: 301''))), ?sent)"
    by code_simp
  have names: "uploaded_filenames (snd (wp_media twice_redirecting example_upload))
     = [js ''Hello-World--featured.jpg'', js ''Hello-World--featured.jpg'']"
    by code_simp
  have t: "(if truthy (title example_upload) then title example_upload
            else JStr (js ''featured-image'')) = JStr (js ''Hello World!'')"
    by code_simp
  from upload_filename [OF run, of ?up ?f] t names
  show ?thesis
    by (simp add: createFormData_def)
qed

section \<open>The alt-text request after an upload\<close>

lemma fetch_outcome_case_same [simp]:
  "(case x of Resolved r \<Rightarrow> c | Rejected m \<Rightarrow> c) = c"
  by (cases x) simp_all

lemma media_finish_net:
  "media_finish net' sent baseUrl authHeader t r = media_finish net sent baseUrl authHeader t r"
  by (auto simp: media_finish_def Let_def split: option.splits sum.splits)

lemma media_finish_ok:
  assumes "ok r" and "json r = Some item"
    and "get_prop item (js ''id'') = Inr media_id" and "get_prop item (js ''source_url'') = Inr source"
  shows "media_finish net sent baseUrl authHeader t r
     = (Reply 200 (json_object [(js ''id'', media_id), (js ''url'', source)]),
        sent @ (if truthy t \<and> truthy media_id
                then [media_patch_request baseUrl authHeader media_id t] else []))"
  using assms by (simp add: media_finish_def Let_def)

lemma media_upload_net:
  assumes "\<forall>hist rq. (\<forall>v. body rq \<noteq> JsonBody v) \<longrightarrow> net' hist rq = net hist rq"
  shows "media_upload net' sent baseUrl authHeader buf n t
     = media_upload net sent baseUrl authHeader buf n t"
proof -
  have up: "net' hist (media_upload_request baseUrl authHeader f)
      = net hist (media_upload_request baseUrl authHeader f)" for hist f
    using assms by simp
  have rd: "net' hist (media_redirect_request l authHeader f)
      = net hist (media_redirect_request l authHeader f)" for hist l f
    using assms by simp
  show ?thesis
    by (simp add: media_upload_def Let_def up rd media_finish_net [of net' _ _ _ _ _ net]
        cong: if_cong fetch_outcome.case_cong option.case_cong)
qed

lemma wp_media_net:
  assumes "\<forall>hist rq. (\<forall>v. body rq \<noteq> JsonBody v) \<longrightarrow> net' hist rq = net hist rq"
  shows "wp_media net' b = wp_media net b"
proof -
  have img: "net' hist (image_request u) = net hist (image_request u)" for hist u
    using assms by simp
  show ?thesis
    by (simp add: wp_media_def Let_def img media_upload_net [OF assms]
        cong: if_cong fetch_outcome.case_cong sum.case_cong)
qed


lemma small_index:
  "i < length xs \<Longrightarrow> length xs \<le> 4 \<Longrightarrow> i = 0 \<or> i = 1 \<or> i = 2 \<or> i = (3::nat)"
  by arith

text \<open>
  Claim C7.  Take an upload request of the media handler (the upload or its redirect
  follow-up, the requests with a multipart body) that is answered with a 2xx response whose
  body is the created media item.  Then the handler replies 200 with the \<open>id\<close> and the
  \<open>source_url\<close> of that item.  The requests it issues after the upload are one alt-text
  request for the created id when a title was supplied and the item has an id (the
  handler tests \<^verbatim>\<open>title && mediaItem.id\<close>), and none otherwise.  And the reply and the
  requests are the same on every network that differs from this one only in what it
  answers to requests with a JSON body, of which the alt-text request is the only one:
  whatever the outcome of that request, a rejection or any response, the result is the
  same.
\<close>

theorem alt_text_failure_swallowed:
  assumes run: "wp_media net b = (reply, sent)"
    and i: "i < length sent" "body (sent ! i) = FormBody f"
    and r: "net (take i sent) (sent ! i) = Resolved r" "ok r"
    and item: "json r = Some item" "get_prop item (js ''id'') = Inr media_id"
      "get_prop item (js ''source_url'') = Inr source"
  shows "reply = Reply 200 (json_object [(js ''id'', media_id), (js ''url'', source)])
     \<and> (\<exists>site. siteUrl b = JStr site
          \<and> drop (Suc i) sent
              = (if truthy (title b) \<and> truthy media_id
                 then [media_patch_request (strip_trailing_slash site)
                         (getWpAuthHeader (username b) (appPassword b)) media_id (title b)]
                 else []))
     \<and> (\<forall>net'. (\<forall>hist rq. (\<forall>v. body rq \<noteq> JsonBody v) \<longrightarrow> net' hist rq = net hist rq)
            \<longrightarrow> wp_media net' b = (reply, sent))"
proof -
  have long: "1 < length sent"
  proof (rule ccontr)
    assume "\<not> 1 < length sent"
    from wp_media_short [OF run this] i show False by auto
  qed
  from wp_media_upload_phase [OF run long] obtain site u t and img :: response where
    site: "siteUrl b = JStr site"
    and mu: "media_upload net [image_request u] (strip_trailing_slash site)
          (getWpAuthHeader (username b) (appPassword b)) (buffer img)
          (safeTitle t @ js ''-featured.jpg'') (title b) = (reply, sent)"
    by (elim exE conjE) (rule that)
  let ?base = "strip_trailing_slash site"
  let ?auth = "getWpAuthHeader (username b) (appPassword b)"
  let ?up = "media_upload_request ?base ?auth
               (createFormData 0 (buffer img) (safeTitle t @ js ''-featured.jpg''))"
  let ?rd = "\<lambda>l. media_redirect_request l ?auth
               (createFormData 1 (buffer img) (safeTitle t @ js ''-featured.jpg''))"
  let ?extra = "if truthy (title b) \<and> truthy media_id
                then [media_patch_request ?base ?auth media_id (title b)] else []"
  from media_upload_cases [OF mu]
  consider (rejected) m where "net [image_request u] ?up = Rejected m" "sent = [image_request u, ?up]"
    | (direct) r0 where "net [image_request u] ?up = Resolved r0"
        "media_finish net [image_request u, ?up] ?base ?auth (title b) r0 = (reply, sent)"
    | (lost) r0 l m where "net [image_request u] ?up = Resolved r0" "is_redirect_status (status r0)"
        "net [image_request u, ?up] (?rd l) = Rejected m" "sent = [image_request u, ?up, ?rd l]"
    | (followed) r0 l r' where "net [image_request u] ?up = Resolved r0" "is_redirect_status (status r0)"
        "net [image_request u, ?up] (?rd l) = Resolved r'"
        "media_finish net [image_request u, ?up, ?rd l] ?base ?auth (title b) r' = (reply, sent)"
    by auto
  then have result: "reply = Reply 200 (json_object [(js ''id'', media_id), (js ''url'', source)])
      \<and> drop (Suc i) sent = ?extra"
  proof cases
    case rejected
    with i small_index [of i sent] have "i = 0 \<or> i = 1 \<or> i = 2 \<or> i = 3"
      by simp
    with rejected i r show ?thesis
      by (elim disjE) simp_all
  next
    case direct
    from media_finish_result [OF direct(2)]
    have shape: "sent = [image_request u, ?up]
        \<or> (\<exists>k. sent = [image_request u, ?up, media_patch_request ?base ?auth k (title b)])"
      by auto
    with i small_index [of i sent] have "i = 0 \<or> i = 1 \<or> i = 2 \<or> i = 3"
      by auto
    with shape i have i1: "i = 1"
      by (elim disjE exE) simp_all
    with shape r(1) direct(1) have "r0 = r"
      by (elim disjE exE) simp_all
    with i1 direct(2) media_finish_ok [OF r(2) item, of net "[image_request u, ?up]" ?base ?auth "title b"]
    show ?thesis by auto
  next
    case lost
    with i small_index [of i sent] have "i = 0 \<or> i = 1 \<or> i = 2 \<or> i = 3"
      by simp
    with lost i r redirect_not_ok [of r0] show ?thesis
      by (elim disjE) simp_all
  next
    case followed
    from media_finish_result [OF followed(4)]
    have shape: "sent = [image_request u, ?up, ?rd l]
        \<or> (\<exists>k. sent = [image_request u, ?up, ?rd l, media_patch_request ?base ?auth k (title b)])"
      by auto
    with i small_index [of i sent] have "i = 0 \<or> i = 1 \<or> i = 2 \<or> i = 3"
      by auto
    with shape i r followed(1,2) redirect_not_ok [of r0] have i2: "i = 2"
      by (elim disjE exE) simp_all
    with shape r(1) followed(3) have "r' = r"
      by (elim disjE exE) simp_all
    with i2 followed(4)
      media_finish_ok [OF r(2) item, of net "[image_request u, ?up, ?rd l]" ?base ?auth "title b"]
    show ?thesis by auto
  qed
  have "wp_media net' b = (reply, sent)"
    if "\<forall>hist rq. (\<forall>v. body rq \<noteq> JsonBody v) \<longrightarrow> net' hist rq = net hist rq" for net'
    using wp_media_net [OF that, of b] run by simp
  with result site show ?thesis by blast
qed

text \<open>
  An upload with a title, on a network that refuses the connection of the alt-text
  request and on one that answers it with a 500.
\<close>

theorem alt_text_failure_swallowed_witness:
  "wp_media patch_fails example_upload
     = (Reply 200 (json_object [(js ''id'', JNum 42), (js ''url'', JStr (js ''https://blog.example/a.jpg''))]),
        [image_request (js ''https://img.example/a.png''),
         media_upload_request (js ''https://blog.example'') (js ''Basic dXNlcjpwYXNz'')
           (createFormData 0 [1, 2, 3] (js ''Hello-World--featured.jpg'')),
         media_patch_request (js ''https://blog.example'') (js ''Basic dXNlcjpwYXNz'') (JNum 42)
           (JStr (js ''Hello World!''))])
   \<and> patch_fails
        [image_request (js ''https://img.example/a.png''),
         media_upload_request (js ''https://blog.example'') (js ''Basic dXNlcjpwYXNz'')
           (createFormData 0 [1, 2, 3] (js ''Hello-World--featured.jpg''))]
        (media_patch_request (js ''https://blog.example'') (js ''Basic dXNlcjpwYXNz'') (JNum 42)
           (JStr (js ''Hello World!'')))
       = Rejected (js ''ECONNREFUSED'')
   \<and> patch_refused
        [image_request (js ''https://img.example/a.png''),
         media_upload_request (js ''https://blog.example'') (js ''Basic dXNlcjpwYXNz'')
           (createFormData 0 [1, 2, 3] (js ''Hello-World--featured.jpg''))]
        (media_patch_request (js ''https://blog.example'') (js ''Basic dXNlcjpwYXNz'') (JNum 42)
           (JStr (js ''Hello World!'')))
       = Resolved (json_response 500 JNull)
   \<and> wp_media patch_refused example_upload = wp_media patch_fails example_upload"
proof -
  let ?img = "image_request (js ''https://img.example/a.png'')"
  let ?f = "createFormData 0 [1, 2, 3] (js ''Hello-World--featured.jpg'')"
  let ?up = "media_upload_request (js ''https://blog.example'') (js ''Basic dXNlcjpwYXNz'') ?f"
  let ?patch = "media_patch_request (js ''https://blog.example'') (js ''Basic dXNlcjpwYXNz'') (JNum 42)
           (JStr (js ''Hello World!''))"
  let ?reply = "Reply 200 (json_object [(js ''id'', JNum 42), (js ''url'', JStr (js ''https://blog.example/a.jpg''))])"
  have run: "wp_media patch_fails example_upload = (?reply, [?img, ?up, ?patch])"
    by code_simp
  have i: "1 < length [?img, ?up, ?patch]" "body ([?img, ?up, ?patch] ! 1) = FormBody ?f"
    by simp_all
  have r: "patch_fails (take 1 [?img, ?up, ?patch]) ([?img, ?up, ?patch] ! 1) = Resolved created_media"
    "ok created_media"
    by (simp_all add: patch_fails_def scripted_def created_media_def ok_def json_response_def)
  have item: "json created_media
      = Some (JObj [(js ''id'', JNum 42), (js ''source_url'', JStr (js ''https://blog.example/a.jpg''))])"
    "get_prop (JObj [(js ''id'', JNum 42), (js ''source_url'', JStr (js ''https://blog.example/a.jpg''))])
       (js ''id'') = Inr (JNum 42)"
    "get_prop (JObj [(js ''id'', JNum 42), (js ''source_url'', JStr (js ''https://blog.example/a.jpg''))])
       (js ''source_url'') = Inr (JStr (js ''https://blog.example/a.jpg''))"
    by code_simp+
  have agree: "\<forall>hist rq. (\<forall>v. body rq \<noteq> JsonBody v) \<longrightarrow> patch_refused hist rq = patch_fails hist rq"
    by (auto simp: patch_refused_def split: payload.splits)
  have outcomes: "patch_fails [?img, ?up] ?patch = Rejected (js ''ECONNREFUSED'')"
    "patch_refused [?img, ?up] ?patch = Resolved (json_response 500 JNull)"
    by (simp_all add: patch_fails_def patch_refused_def scripted_def)
  from alt_text_failure_swallowed [OF run i r item]
  have "\<forall>net'. (\<forall>hist rq. (\<forall>v. body rq \<noteq> JsonBody v) \<longrightarrow> net' hist rq = patch_fails hist rq)
            \<longrightarrow> wp_media net' example_upload = (?reply, [?img, ?up, ?patch])"
    by (elim conjE)
  with agree have "wp_media patch_refused example_upload = (?reply, [?img, ?up, ?patch])"
    by blast
  with run outcomes show ?thesis by simp
qed

end
